theory Spec2Isabelle
  imports Main "HOL-Library.Word"
begin

section \<open>Integer arithmetic of C and C++\<close>

text \<open>
  Division of signed integers truncates towards zero in C and C++, and the remainder
  has the sign of the dividend. Division by zero is undefined there; every model below
  tests the divisor before it divides.
\<close>

definition c_div :: "int \<Rightarrow> int \<Rightarrow> int" where
  "c_div a b = sgn a * sgn b * (\<bar>a\<bar> div \<bar>b\<bar>)"

definition c_mod :: "int \<Rightarrow> int \<Rightarrow> int" where
  "c_mod a b = a - b * c_div a b"

section \<open>The in-process simulator (src/kernel, cpu-scheduler-project/src/kernel)\<close>

text \<open>
  The C++ \<open>int\<close> fields are modelled as unbounded integers: the simulator's values
  stay far below \<open>2^31\<close> and signed overflow is undefined in C++.
  The private members \<open>pid_\<close>, \<open>name_\<close>, ... are written without the trailing
  underscore.
\<close>

subsection \<open>process.h, process.cpp\<close>

datatype ProcessState = NEW | READY | RUNNING | WAITING | TERMINATED

record Process =
  pid :: int
  name :: string
  basePriority :: int
  effectivePriority :: int
  burstTime :: int
  remainingTime :: int
  state :: ProcessState
  arrivalTime :: int
  waitTime :: int
  turnaroundTime :: int

text \<open>The constructor \<open>Process::Process(pid, name, priority, burstTime)\<close>.\<close>

definition Process_ctor :: "int \<Rightarrow> string \<Rightarrow> int \<Rightarrow> int \<Rightarrow> Process" where
  "Process_ctor pid0 name0 priority burstTime0 =
     \<lparr>pid = pid0, name = name0, basePriority = priority, effectivePriority = priority,
      burstTime = burstTime0, remainingTime = burstTime0, state = NEW,
      arrivalTime = 0, waitTime = 0, turnaroundTime = 0\<rparr>"

definition setState :: "Process \<Rightarrow> ProcessState \<Rightarrow> Process" where
  "setState p st = p\<lparr>state := st\<rparr>"

text \<open>\<open>Process::execute(timeSlice)\<close>.\<close>

definition execute :: "Process \<Rightarrow> int \<Rightarrow> Process" where
  "execute p timeSlice =
     (if state p \<noteq> RUNNING then p
      else let execTime = min timeSlice (remainingTime p);
               p1 = p\<lparr>remainingTime := remainingTime p - execTime\<rparr>
           in if remainingTime p1 = 0 then p1\<lparr>state := TERMINATED\<rparr> else p1)"

text \<open>
  \<open>Process::applyAging(agingFactor)\<close>. The division \<open>waitTime / agingFactor\<close> has no
  guard in the source; with \<open>agingFactor = 0\<close> it is a division by zero, which the
  model returns as an error.
\<close>

datatype error = DivisionByZero

definition Process_applyAging :: "Process \<Rightarrow> int \<Rightarrow> error + Process" where
  "Process_applyAging p agingFactor =
     (if agingFactor = 0 then Inl DivisionByZero
      else Inr (p\<lparr>effectivePriority := basePriority p + c_div (waitTime p) agingFactor\<rparr>))"

subsection \<open>ready_queue.h, ready_queue.cpp\<close>

text \<open>
  The simulator shares every \<open>Process\<close> object between \<open>allProcesses_\<close>, the ready queue,
  the running slot and the blocked list through \<open>std::shared_ptr\<close>. \<open>allProcesses_\<close> only
  ever grows at its end, so a pointer is modelled as the position of the object in
  \<open>allProcesses_\<close>, and the list itself is the store the pointers refer to.
\<close>

type_synonym ref = nat

text \<open>
  \<open>ProcessComparator\<close>: \<open>a\<close> is ordered below \<open>b\<close> when its effective priority is
  numerically greater.
\<close>

definition ProcessComparator :: "Process \<Rightarrow> Process \<Rightarrow> bool" where
  "ProcessComparator a b = (effectivePriority a > effectivePriority b)"

text \<open>
  \<open>std::priority_queue\<close> keeps its elements in a \<open>std::vector\<close> arranged as a binary
  heap, with \<open>std::push_heap\<close> and \<open>std::pop_heap\<close>. The order in which elements of
  equal effective priority leave the queue follows from these two algorithms, which are
  modelled as the GNU C++ library implements them. The queue is the vector; the
  comparator reads the effective priorities through the pointers, from the store.
\<close>

text \<open>
  \<open>__push_heap(first, holeIndex, topIndex, value, comp)\<close>: the hole moves up while its
  parent is ordered below \<open>value\<close>.
\<close>

function push_heap_hole :: "Process list \<Rightarrow> ref list \<Rightarrow> nat \<Rightarrow> nat \<Rightarrow> ref \<Rightarrow> ref list" where
  "push_heap_hole store c holeIndex topIndex v =
     (if holeIndex > topIndex
         \<and> ProcessComparator (store ! (c ! ((holeIndex - 1) div 2))) (store ! v)
      then push_heap_hole store (c[holeIndex := c ! ((holeIndex - 1) div 2)])
             ((holeIndex - 1) div 2) topIndex v
      else c[holeIndex := v])"
  by pat_completeness auto
termination
  by (relation "measure (\<lambda>(store, c, holeIndex, topIndex, v). holeIndex)") auto

declare push_heap_hole.simps [simp del]

text \<open>\<open>std::push_heap\<close>: the last element of the vector is the value to place.\<close>

definition push_heap :: "Process list \<Rightarrow> ref list \<Rightarrow> ref list" where
  "push_heap store c = push_heap_hole store c (length c - 1) 0 (c ! (length c - 1))"

text \<open>
  The loop of \<open>__adjust_heap(first, holeIndex, len, value, comp)\<close>: the hole moves down
  to the child that the comparator does not order below its sibling. \<open>pick_child\<close> is
  the value of \<open>secondChild\<close> after the test inside the loop.
\<close>

definition pick_child :: "Process list \<Rightarrow> ref list \<Rightarrow> nat \<Rightarrow> nat" where
  "pick_child store c secondChild =
     (if ProcessComparator (store ! (c ! (2 * (secondChild + 1))))
                           (store ! (c ! (2 * (secondChild + 1) - 1)))
      then 2 * (secondChild + 1) - 1
      else 2 * (secondChild + 1))"

lemma pick_child_greater: "secondChild < pick_child store c secondChild"
  by (simp add: pick_child_def)

lemma pick_child_bound:
  "secondChild < (len - 1) div 2 \<Longrightarrow> pick_child store c secondChild < len"
  by (auto simp: pick_child_def)

function adjust_heap_loop ::
  "Process list \<Rightarrow> ref list \<Rightarrow> nat \<Rightarrow> nat \<Rightarrow> nat \<Rightarrow> ref list \<times> nat \<times> nat" where
  "adjust_heap_loop store c holeIndex secondChild len =
     (if secondChild < (len - 1) div 2
      then adjust_heap_loop store (c[holeIndex := c ! pick_child store c secondChild])
             (pick_child store c secondChild) (pick_child store c secondChild) len
      else (c, holeIndex, secondChild))"
  by pat_completeness auto
termination
proof (relation "measure (\<lambda>(store, c, holeIndex, secondChild, len). len - secondChild)")
  show "wf (measure (\<lambda>(store, c, holeIndex, secondChild, len). len - secondChild))"
    by simp
next
  fix store :: "Process list" and c :: "ref list" and holeIndex secondChild len :: nat
  assume a: "secondChild < (len - 1) div 2"
  have "secondChild < pick_child store c secondChild"
    by (rule pick_child_greater)
  moreover from a have "pick_child store c secondChild < len"
    by (rule pick_child_bound)
  ultimately show
    "((store, c[holeIndex := c ! pick_child store c secondChild],
       pick_child store c secondChild, pick_child store c secondChild, len),
      (store, c, holeIndex, secondChild, len))
     \<in> measure (\<lambda>(store, c, holeIndex, secondChild, len). len - secondChild)"
    by simp
qed

declare adjust_heap_loop.simps [simp del]

text \<open>
  \<open>__adjust_heap\<close>: after the loop a last child without a sibling is moved up when
  \<open>len\<close> is even, and \<open>value\<close> is pushed from the hole.
\<close>

definition adjust_heap :: "Process list \<Rightarrow> ref list \<Rightarrow> nat \<Rightarrow> nat \<Rightarrow> ref \<Rightarrow> ref list" where
  "adjust_heap store c holeIndex len v =
     (case adjust_heap_loop store c holeIndex holeIndex len of
        (c1, holeIndex1, secondChild1) \<Rightarrow>
          if even len \<and> secondChild1 = (len - 2) div 2
          then push_heap_hole store
                 (c1[holeIndex1 := c1 ! (2 * (secondChild1 + 1) - 1)])
                 (2 * (secondChild1 + 1) - 1) holeIndex v
          else push_heap_hole store c1 holeIndex1 holeIndex v)"

text \<open>
  \<open>std::pop_heap\<close>: with more than one element the first goes to the last position
  and the former last element is placed from the top.
\<close>

definition pop_heap :: "Process list \<Rightarrow> ref list \<Rightarrow> ref list" where
  "pop_heap store c =
     (if length c > 1
      then adjust_heap store (c[length c - 1 := c ! 0]) 0 (length c - 1) (c ! (length c - 1))
      else c)"

text \<open>\<open>priority_queue::top\<close>, \<open>pop\<close> and \<open>push\<close>.\<close>

definition pq_top :: "ref list \<Rightarrow> ref option" where
  "pq_top q = (case q of [] \<Rightarrow> None | r # rs \<Rightarrow> Some r)"

definition pq_pop :: "Process list \<Rightarrow> ref list \<Rightarrow> ref list" where
  "pq_pop store q = butlast (pop_heap store q)"

definition pq_push :: "Process list \<Rightarrow> ref list \<Rightarrow> ref \<Rightarrow> ref list" where
  "pq_push store q r = push_heap store (q @ [r])"

definition ReadyQueue_enqueue :: "Process list \<Rightarrow> ref list \<Rightarrow> ref \<Rightarrow> ref list" where
  "ReadyQueue_enqueue store q proc = pq_push store q proc"

text \<open>\<open>ReadyQueue::dequeue\<close>: \<open>nullptr\<close> is \<open>None\<close>.\<close>

definition ReadyQueue_dequeue :: "Process list \<Rightarrow> ref list \<Rightarrow> ref option \<times> ref list" where
  "ReadyQueue_dequeue store q =
     (if q = [] then (None, q) else (pq_top q, pq_pop store q))"

definition ReadyQueue_empty :: "ref list \<Rightarrow> bool" where
  "ReadyQueue_empty q = (q = [])"

lemma push_heap_hole_up:
  assumes "holeIndex > topIndex"
    "ProcessComparator (store ! (c ! ((holeIndex - 1) div 2))) (store ! v)"
  shows "push_heap_hole store c holeIndex topIndex v
       = push_heap_hole store (c[holeIndex := c ! ((holeIndex - 1) div 2)])
           ((holeIndex - 1) div 2) topIndex v"
  using assms by (subst push_heap_hole.simps) simp

lemma push_heap_hole_stop:
  assumes "\<not> (holeIndex > topIndex
      \<and> ProcessComparator (store ! (c ! ((holeIndex - 1) div 2))) (store ! v))"
  shows "push_heap_hole store c holeIndex topIndex v = c[holeIndex := v]"
  using assms by (subst push_heap_hole.simps) auto

lemma length_push_heap_hole [simp]:
  "length (push_heap_hole store c holeIndex topIndex v) = length c"
proof (induction store c holeIndex topIndex v rule: push_heap_hole.induct)
  case (1 store c holeIndex topIndex v)
  show ?case
  proof (cases "holeIndex > topIndex
      \<and> ProcessComparator (store ! (c ! ((holeIndex - 1) div 2))) (store ! v)")
    case True
    with "1.IH" [OF True] show ?thesis
      by (simp add: push_heap_hole_up)
  next
    case False
    then show ?thesis
      by (simp add: push_heap_hole_stop)
  qed
qed

lemma length_adjust_heap_loop [simp]:
  "length (fst (adjust_heap_loop store c holeIndex secondChild len)) = length c"
proof (induction store c holeIndex secondChild len rule: adjust_heap_loop.induct)
  case (1 store c holeIndex secondChild len)
  show ?case
  proof (cases "secondChild < (len - 1) div 2")
    case True
    with "1.IH" [OF True] show ?thesis
      by (subst adjust_heap_loop.simps) simp
  next
    case False
    then show ?thesis
      by (subst adjust_heap_loop.simps) simp
  qed
qed

lemma length_pop_heap [simp]: "length (pop_heap store c) = length c"
proof -
  have "length (adjust_heap store c' h len v) = length c'" for c' h len v
  proof -
    obtain c1 h1 s1 where l: "adjust_heap_loop store c' h h len = (c1, h1, s1)"
      by (cases "adjust_heap_loop store c' h h len")
    with length_adjust_heap_loop [of store c' h h len] have "length c1 = length c'"
      by simp
    with l show ?thesis by (simp add: adjust_heap_def)
  qed
  then show ?thesis by (simp add: pop_heap_def)
qed

lemma length_pq_pop [simp]: "length (pq_pop store q) = length q - 1"
  by (simp add: pq_pop_def)

lemma push_heap_hole_mem:
  "holeIndex < length c \<Longrightarrow> v \<in> set (push_heap_hole store c holeIndex topIndex v)"
proof (induction store c holeIndex topIndex v rule: push_heap_hole.induct)
  case (1 store c holeIndex topIndex v)
  show ?case
  proof (cases "holeIndex > topIndex
      \<and> ProcessComparator (store ! (c ! ((holeIndex - 1) div 2))) (store ! v)")
    case True
    from "1.prems" have "(holeIndex - 1) div 2 < length (c[holeIndex := c ! ((holeIndex - 1) div 2)])"
      by simp
    with "1.IH" [OF True] True show ?thesis
      by (simp add: push_heap_hole_up)
  next
    case False
    with "1.prems" show ?thesis
      by (simp add: push_heap_hole_stop set_update_memI)
  qed
qed

lemma pq_push_mem: "r \<in> set (pq_push store q r)"
  by (simp add: pq_push_def push_heap_def push_heap_hole_mem)

text \<open>
  The first loop of \<open>ReadyQueue::applyAging\<close>: pop every element, age it, and append it
  to \<open>temp\<close>.
\<close>

function applyAging_drain ::
  "Process list \<Rightarrow> ref list \<Rightarrow> ref list \<Rightarrow> int \<Rightarrow> error + (Process list \<times> ref list)" where
  "applyAging_drain store q temp agingFactor =
     (case pq_top q of
        None \<Rightarrow> Inr (store, temp)
      | Some proc \<Rightarrow>
          (case Process_applyAging (store ! proc) agingFactor of
             Inl e \<Rightarrow> Inl e
           | Inr p' \<Rightarrow>
               applyAging_drain (store[proc := p']) (pq_pop store q) (temp @ [proc]) agingFactor))"
  by pat_completeness auto
termination
proof (relation "measure (\<lambda>(store, q, temp, agingFactor). length q)")
  show "wf (measure (\<lambda>(store, q, temp, agingFactor). length q))" by simp
next
  fix store :: "Process list" and q temp :: "ref list" and agingFactor :: int
    and proc :: ref and p' :: Process
  assume "pq_top q = Some proc"
  then have "q \<noteq> []" by (auto simp: pq_top_def)
  then have "length (pq_pop store q) < length q" by simp
  then show "((store[proc := p'], pq_pop store q, temp @ [proc], agingFactor),
              (store, q, temp, agingFactor))
             \<in> measure (\<lambda>(store, q, temp, agingFactor). length q)"
    by simp
qed

text \<open>
  \<open>ReadyQueue::applyAging\<close>: the drained elements are pushed back in the order they
  were popped.
\<close>

definition ReadyQueue_applyAging ::
  "Process list \<Rightarrow> ref list \<Rightarrow> int \<Rightarrow> error + (Process list \<times> ref list)" where
  "ReadyQueue_applyAging store q agingFactor =
     (case applyAging_drain store q [] agingFactor of
        Inl e \<Rightarrow> Inl e
      | Inr (store', temp) \<Rightarrow> Inr (store', foldl (pq_push store') [] temp))"

subsection \<open>scheduler.h, scheduler.cpp\<close>

text \<open>
  \<open>SchedulerStats\<close>. \<open>cpuUtilization\<close> only ever holds \<open>100.0\<close> or \<open>0.0\<close> and is kept
  as an integer. The two averages are the quotients of \<open>totalWait\<close> and
  \<open>totalTurnaround\<close> by \<open>totalProcesses\<close> in double precision; the model keeps the two
  integer sums they are computed from.
\<close>

record SchedulerStats =
  totalProcesses :: int
  runningProcesses :: int
  readyProcesses :: int
  waitingProcesses :: int
  terminatedProcesses :: int
  cpuUtilization :: int
  contextSwitchCount :: int
  totalWait :: int
  totalTurnaround :: int

definition SchedulerStats_init :: SchedulerStats where
  "SchedulerStats_init =
     \<lparr>totalProcesses = 0, runningProcesses = 0, readyProcesses = 0, waitingProcesses = 0,
      terminatedProcesses = 0, cpuUtilization = 0, contextSwitchCount = 0,
      totalWait = 0, totalTurnaround = 0\<rparr>"

text \<open>
  The members of \<open>Scheduler\<close>. \<open>nextPid\<close> is the function-local static counter of
  \<open>createProcess\<close>. The statistics callback is an external observer and is left out.
\<close>

record Scheduler =
  readyQueue :: "ref list"
  allProcesses :: "Process list"
  currentProcess :: "ref option"
  running :: bool
  paused :: bool
  timeQuantumMs :: int
  agingFactorSec :: int
  stats :: SchedulerStats
  blockedProcesses :: "(ref \<times> int) list"
  ioSimulationCounter :: int
  nextPid :: int

definition Scheduler_init :: Scheduler where
  "Scheduler_init =
     \<lparr>readyQueue = [], allProcesses = [], currentProcess = None, running = False,
      paused = False, timeQuantumMs = 100, agingFactorSec = 5, stats = SchedulerStats_init,
      blockedProcesses = [], ioSimulationCounter = 0, nextPid = 1\<rparr>"

definition setTimeQuantum :: "Scheduler \<Rightarrow> int \<Rightarrow> Scheduler" where
  "setTimeQuantum s ms = s\<lparr>timeQuantumMs := ms\<rparr>"

definition setAgingFactor :: "Scheduler \<Rightarrow> int \<Rightarrow> Scheduler" where
  "setAgingFactor s seconds = s\<lparr>agingFactorSec := seconds\<rparr>"

text \<open>A write through a shared pointer: the object at position \<open>r\<close> is replaced.\<close>

definition modify :: "Scheduler \<Rightarrow> ref \<Rightarrow> (Process \<Rightarrow> Process) \<Rightarrow> Scheduler" where
  "modify s r f = s\<lparr>allProcesses := (allProcesses s)[r := f (allProcesses s ! r)]\<rparr>"

text \<open>
  \<open>Scheduler::updateStats\<close>. \<open>currentTime\<close> is the reading of the steady clock in
  milliseconds since the function's own static \<open>startTime\<close>. The loop body first
  updates the object and then counts it.
\<close>

definition updateStats_proc :: "int \<Rightarrow> int \<Rightarrow> Process \<Rightarrow> Process" where
  "updateStats_proc quantum currentTime p =
     (let p1 = (if state p = READY then p\<lparr>waitTime := waitTime p + quantum\<rparr> else p)
      in if state p1 \<noteq> TERMINATED
         then p1\<lparr>turnaroundTime := currentTime - arrivalTime p1\<rparr> else p1)"

definition count_state :: "ProcessState \<Rightarrow> Process list \<Rightarrow> int" where
  "count_state st ps = int (length (filter (\<lambda>p. state p = st) ps))"

definition updateStats :: "Scheduler \<Rightarrow> int \<Rightarrow> Scheduler" where
  "updateStats s currentTime =
     (let ps = map (updateStats_proc (timeQuantumMs s) currentTime) (allProcesses s);
          running0 = count_state RUNNING ps;
          newStats = \<lparr>totalProcesses = int (length ps),
                      runningProcesses = running0,
                      readyProcesses = count_state READY ps,
                      waitingProcesses = count_state WAITING ps,
                      terminatedProcesses = count_state TERMINATED ps,
                      cpuUtilization = (if running0 > 0 then 100 else 0),
                      contextSwitchCount = contextSwitchCount (stats s),
                      totalWait = sum_list (map waitTime ps),
                      totalTurnaround = sum_list (map turnaroundTime ps)\<rparr>
      in s\<lparr>allProcesses := ps, stats := newStats\<rparr>)"

text \<open>
  \<open>Scheduler::createProcess\<close>. \<open>arrival\<close> is the clock reading stored in
  \<open>arrivalTime\<close>, \<open>currentTime\<close> the one \<open>updateStats\<close> takes. The result is the
  pointer to the new object and the new scheduler. There is no test of the arguments.
\<close>

definition createProcess ::
  "Scheduler \<Rightarrow> string \<Rightarrow> int \<Rightarrow> int \<Rightarrow> int \<Rightarrow> int \<Rightarrow> ref \<times> Scheduler" where
  "createProcess s name0 priority burstTime0 arrival currentTime =
     (let proc = (setState (Process_ctor (nextPid s) name0 priority burstTime0) NEW)
                   \<lparr>arrivalTime := arrival\<rparr>;
          r = length (allProcesses s);
          s1 = s\<lparr>nextPid := nextPid s + 1\<rparr>;
          s2 = s1\<lparr>allProcesses := allProcesses s1 @ [proc]\<rparr>;
          s3 = s2\<lparr>readyQueue := ReadyQueue_enqueue (allProcesses s2) (readyQueue s2) r\<rparr>;
          s4 = modify s3 r (\<lambda>p. setState p READY)
      in (r, updateStats s4 currentTime))"

text \<open>
  The three loops \<open>for (auto& p : allProcesses_) if (cond) { ...; break; }\<close> act on the
  first object that satisfies the condition.
\<close>

fun find_first :: "('a \<Rightarrow> bool) \<Rightarrow> 'a list \<Rightarrow> nat option" where
  "find_first P [] = None"
| "find_first P (x # xs) = (if P x then Some 0 else map_option Suc (find_first P xs))"

definition terminateProcess :: "Scheduler \<Rightarrow> int \<Rightarrow> int \<Rightarrow> Scheduler" where
  "terminateProcess s pid0 currentTime =
     (let s1 = (case find_first (\<lambda>p. pid p = pid0) (allProcesses s) of
                  None \<Rightarrow> s
                | Some r \<Rightarrow> modify s r (\<lambda>p. setState p TERMINATED))
      in updateStats s1 currentTime)"

definition blockProcess :: "Scheduler \<Rightarrow> int \<Rightarrow> int \<Rightarrow> Scheduler" where
  "blockProcess s pid0 currentTime =
     (let s1 = (case find_first (\<lambda>p. pid p = pid0 \<and> state p = RUNNING) (allProcesses s) of
                  None \<Rightarrow> s
                | Some r \<Rightarrow> modify s r (\<lambda>p. setState p WAITING))
      in updateStats s1 currentTime)"

definition unblockProcess :: "Scheduler \<Rightarrow> int \<Rightarrow> int \<Rightarrow> Scheduler" where
  "unblockProcess s pid0 currentTime =
     (let s1 = (case find_first (\<lambda>p. pid p = pid0 \<and> state p = WAITING) (allProcesses s) of
                  None \<Rightarrow> s
                | Some r \<Rightarrow>
                    (let s2 = modify s r (\<lambda>p. setState p READY)
                     in s2\<lparr>readyQueue :=
                            ReadyQueue_enqueue (allProcesses s2) (readyQueue s2) r\<rparr>))
      in updateStats s1 currentTime)"

text \<open>\<open>start\<close> launches the worker, whose iterations are \<open>schedulerLoop_body\<close> below.\<close>

definition start :: "Scheduler \<Rightarrow> Scheduler" where
  "start s = (if running s then s else s\<lparr>running := True, paused := False\<rparr>)"

definition pause :: "Scheduler \<Rightarrow> Scheduler" where
  "pause s = s\<lparr>paused := True\<rparr>"

definition stop :: "Scheduler \<Rightarrow> Scheduler" where
  "stop s = s\<lparr>running := False\<rparr>"

text \<open>\<open>Scheduler::selectNextProcess\<close>.\<close>

definition slot_free :: "Scheduler \<Rightarrow> bool" where
  "slot_free s =
     (case currentProcess s of
        None \<Rightarrow> True
      | Some c \<Rightarrow> state (allProcesses s ! c) = TERMINATED)"

definition selectNextProcess :: "Scheduler \<Rightarrow> Scheduler" where
  "selectNextProcess s =
     (if slot_free s then
        (if \<not> ReadyQueue_empty (readyQueue s) then
           (case ReadyQueue_dequeue (allProcesses s) (readyQueue s) of
              (None, q') \<Rightarrow> s\<lparr>currentProcess := None, readyQueue := q'\<rparr>
            | (Some r, q') \<Rightarrow>
                modify (s\<lparr>currentProcess := Some r, readyQueue := q'\<rparr>) r
                  (\<lambda>p. setState p RUNNING))
         else s)
      else s)"

definition Scheduler_applyAging :: "Scheduler \<Rightarrow> error + Scheduler" where
  "Scheduler_applyAging s =
     (case ReadyQueue_applyAging (allProcesses s) (readyQueue s) (agingFactorSec s) of
        Inl e \<Rightarrow> Inl e
      | Inr (store', q') \<Rightarrow> Inr (s\<lparr>allProcesses := store', readyQueue := q'\<rparr>))"

text \<open>
  The middle of the loop body: the running process executes one quantum; every tenth
  time it is moved to the blocked list if it has more than 500 ms left. \<open>rnd\<close> is the
  value \<open>rand()\<close> returns.
\<close>

definition run_current :: "Scheduler \<Rightarrow> int \<Rightarrow> Scheduler" where
  "run_current s rnd =
     (case currentProcess s of
        None \<Rightarrow> s
      | Some c \<Rightarrow>
          (let s1 = modify s c (\<lambda>p. execute p (timeQuantumMs s));
               s2 = s1\<lparr>ioSimulationCounter := ioSimulationCounter s1 + 1\<rparr>;
               p = allProcesses s2 ! c
           in if c_mod (ioSimulationCounter s2) 10 = 0 \<and> state p \<noteq> TERMINATED
                 \<and> remainingTime p > 500
              then (let s3 = modify s2 c (\<lambda>p. setState p WAITING);
                        ioTime = 100 + c_mod rnd 200;
                        s4 = s3\<lparr>blockedProcesses := blockedProcesses s3 @ [(c, ioTime)]\<rparr>
                    in s4\<lparr>currentProcess := None\<rparr>)
              else if state p = TERMINATED then s2\<lparr>currentProcess := None\<rparr>
              else s2))"

text \<open>
  The loop over \<open>blockedProcesses_\<close>: every entry loses one quantum of I/O time; an
  entry that reaches zero is made READY, enqueued and erased.
\<close>

fun check_blocked ::
  "int \<Rightarrow> (ref \<times> int) list \<Rightarrow> Process list \<Rightarrow> ref list
     \<Rightarrow> Process list \<times> ref list \<times> (ref \<times> int) list" where
  "check_blocked quantum [] store q = (store, q, [])"
| "check_blocked quantum ((proc, t) # rest) store q =
     (let t' = t - quantum
      in if t' \<le> 0
         then check_blocked quantum rest (store[proc := setState (store ! proc) READY])
                (ReadyQueue_enqueue (store[proc := setState (store ! proc) READY]) q proc)
         else (case check_blocked quantum rest store q of
                 (store', q', kept) \<Rightarrow> (store', q', (proc, t') # kept)))"

definition unblock_finished :: "Scheduler \<Rightarrow> Scheduler" where
  "unblock_finished s =
     (case check_blocked (timeQuantumMs s) (blockedProcesses s) (allProcesses s) (readyQueue s) of
        (store', q', kept) \<Rightarrow>
          s\<lparr>allProcesses := store', readyQueue := q', blockedProcesses := kept\<rparr>)"

text \<open>
  One iteration of \<open>while (running_)\<close> in \<open>Scheduler::schedulerLoop\<close>. A paused
  iteration only sleeps. The loop runs for as long as \<open>running_\<close> is set from outside,
  so a run of the engine is a sequence of iterations interleaved with the calls of the
  control interface.
\<close>

definition schedulerLoop_body :: "Scheduler \<Rightarrow> int \<Rightarrow> int \<Rightarrow> error + Scheduler" where
  "schedulerLoop_body s rnd currentTime =
     (if paused s then Inr s
      else (let s1 = selectNextProcess s;
                s2 = run_current s1 rnd;
                s3 = unblock_finished s2
            in case Scheduler_applyAging s3 of
                 Inl e \<Rightarrow> Inl e
               | Inr s4 \<Rightarrow> Inr (updateStats s4 currentTime)))"

datatype event =
    Create string int int int int
  | Kill int int
  | Block int int
  | Unblock int int
  | SetTimeQuantum int
  | SetAgingFactor int
  | Start
  | Pause
  | Stop
  | Iteration int int

text \<open>
  The worker thread runs the loop body only while \<open>running_\<close> is set: an iteration
  of a scheduler that was not started, or was stopped, does nothing.
\<close>

fun step :: "Scheduler \<Rightarrow> event \<Rightarrow> error + Scheduler" where
  "step s (Create name0 priority burstTime0 arrival currentTime) =
     Inr (snd (createProcess s name0 priority burstTime0 arrival currentTime))"
| "step s (Kill pid0 currentTime) = Inr (terminateProcess s pid0 currentTime)"
| "step s (Block pid0 currentTime) = Inr (blockProcess s pid0 currentTime)"
| "step s (Unblock pid0 currentTime) = Inr (unblockProcess s pid0 currentTime)"
| "step s (SetTimeQuantum ms) = Inr (setTimeQuantum s ms)"
| "step s (SetAgingFactor seconds) = Inr (setAgingFactor s seconds)"
| "step s Start = Inr (start s)"
| "step s Pause = Inr (pause s)"
| "step s Stop = Inr (stop s)"
| "step s (Iteration rnd currentTime) =
     (if running s then schedulerLoop_body s rnd currentTime else Inr s)"

fun run :: "Scheduler \<Rightarrow> event list \<Rightarrow> error + Scheduler" where
  "run s [] = Inr s"
| "run s (e # es) = (case step s e of Inl err \<Rightarrow> Inl err | Inr s' \<Rightarrow> run s' es)"

section \<open>The kernel module (kernel_module/custom_scheduler.c)\<close>

text \<open>
  \<open>unsigned long\<close> is a 64-bit word, on which the arithmetic of C wraps around; the
  aging formula depends on that. The \<open>int\<close> fields are unbounded integers, as in the
  simulator. \<open>pid\<close>, \<open>name\<close> and \<open>state\<close> of \<open>struct custom_pcb\<close> and the global
  \<open>stats\<close> carry the prefix \<open>k_\<close>, since the simulator has the same names.
\<close>

type_synonym ulong = "64 word"

datatype proc_state = PROC_NEW | PROC_READY | PROC_RUNNING | PROC_WAITING | PROC_TERMINATED

text \<open>
  \<open>struct custom_pcb\<close>. The two \<open>list_head\<close> members are the positions of the block in
  the ready queue and in \<open>all_processes\<close>; they are the lists of the global state below.
\<close>

record custom_pcb =
  k_pid :: int
  k_name :: string
  base_priority :: int
  effective_priority :: int
  burst_time_ms :: int
  remaining_time_ms :: int
  k_state :: proc_state
  arrival_time_jiffies :: ulong
  wait_time_ms :: ulong
  turnaround_time_ms :: ulong
  last_update_jiffies :: ulong
  wakeup_time_jiffies :: ulong

record sched_stats =
  total_processes :: ulong
  running_processes :: ulong
  ready_processes :: ulong
  waiting_processes :: ulong
  terminated_processes :: ulong
  context_switches :: ulong
  cpu_utilization_percent :: ulong
  avg_wait_time_ms :: ulong
  avg_turnaround_time_ms :: ulong
  total_cpu_time_ms :: ulong
  total_idle_time_ms :: ulong

text \<open>
  The global data of the module. \<open>all_processes\<close> only grows at its end until the module
  is unloaded, so a pointer to a block is its position in \<open>all_processes\<close>.
  \<open>thread_proc\<close> and \<open>exec_time\<close> are the local variables \<open>proc\<close> and \<open>exec_time\<close> of
  the scheduler thread, which it holds while it sleeps; \<open>sleeping\<close> says that the
  thread is inside \<open>msleep\<close>.
\<close>

record kmod =
  time_quantum_ms :: int
  aging_factor_sec :: int
  ready_q :: "ref list"
  ready_q_count :: int
  current_proc :: "ref option"
  k_stats :: sched_stats
  scheduler_running :: bool
  all_processes :: "custom_pcb list"
  next_pid :: int
  thread_proc :: "ref option"
  exec_time :: int
  sleeping :: bool

text \<open>
  What the module takes from the kernel it is built for: the tick rate \<open>HZ\<close> and the two
  conversions between jiffies and milliseconds.
\<close>

record kernel_env =
  HZ :: ulong
  msecs_to_jiffies :: "int \<Rightarrow> ulong"
  jiffies_to_msecs :: "ulong \<Rightarrow> ulong"

text \<open>\<open>time_after_eq(a, b)\<close> of linux/jiffies.h is \<open>(long)(a - b) >= 0\<close>.\<close>

definition time_after_eq :: "ulong \<Rightarrow> ulong \<Rightarrow> bool" where
  "time_after_eq a b = (0 \<le> sint (a - b))"

definition sched_stats_zero :: sched_stats where
  "sched_stats_zero =
     \<lparr>total_processes = 0, running_processes = 0, ready_processes = 0,
      waiting_processes = 0, terminated_processes = 0, context_switches = 0,
      cpu_utilization_percent = 0, avg_wait_time_ms = 0, avg_turnaround_time_ms = 0,
      total_cpu_time_ms = 0, total_idle_time_ms = 0\<rparr>"

text \<open>The state after \<open>custom_scheduler_init\<close>, with the default module parameters.\<close>

definition custom_scheduler_init :: kmod where
  "custom_scheduler_init =
     \<lparr>time_quantum_ms = 100, aging_factor_sec = 5, ready_q = [], ready_q_count = 0,
      current_proc = None, k_stats = sched_stats_zero, scheduler_running = True,
      all_processes = [], next_pid = 1, thread_proc = None, exec_time = 0,
      sleeping = False\<rparr>"

definition kmodify :: "kmod \<Rightarrow> ref \<Rightarrow> (custom_pcb \<Rightarrow> custom_pcb) \<Rightarrow> kmod" where
  "kmodify K r f = K\<lparr>all_processes := (all_processes K)[r := f (all_processes K ! r)]\<rparr>"

text \<open>
  \<open>enqueue_process\<close>: the block goes in front of the first entry whose effective priority
  is numerically greater, or to the end.
\<close>

fun insert_by_priority :: "custom_pcb list \<Rightarrow> ref \<Rightarrow> ref list \<Rightarrow> ref list" where
  "insert_by_priority store proc [] = [proc]"
| "insert_by_priority store proc (pos # rest) =
     (if effective_priority (store ! proc) < effective_priority (store ! pos)
      then proc # pos # rest
      else pos # insert_by_priority store proc rest)"

definition enqueue_process :: "kmod \<Rightarrow> ref \<Rightarrow> kmod" where
  "enqueue_process K proc =
     K\<lparr>ready_q := insert_by_priority (all_processes K) proc (ready_q K),
       ready_q_count := ready_q_count K + 1\<rparr>"

text \<open>\<open>dequeue_process\<close>: the first entry of the list, \<open>NULL\<close> when it is empty.\<close>

definition dequeue_process :: "kmod \<Rightarrow> ref option \<times> kmod" where
  "dequeue_process K =
     (case ready_q K of
        [] \<Rightarrow> (None, K)
      | proc # rest \<Rightarrow> (Some proc, K\<lparr>ready_q := rest, ready_q_count := ready_q_count K - 1\<rparr>))"

text \<open>
  \<open>check_waiting_processes\<close>: every WAITING block of \<open>all_processes\<close> whose wake-up time
  has come is made READY and enqueued.
\<close>

definition wake_one :: "ulong \<Rightarrow> kmod \<Rightarrow> ref \<Rightarrow> kmod" where
  "wake_one jiffies K r =
     (let proc = all_processes K ! r
      in if k_state proc = PROC_WAITING \<and> time_after_eq jiffies (wakeup_time_jiffies proc)
         then enqueue_process
                (kmodify K r (\<lambda>p. p\<lparr>k_state := PROC_READY, last_update_jiffies := jiffies\<rparr>)) r
         else K)"

definition check_waiting_processes :: "kmod \<Rightarrow> ulong \<Rightarrow> kmod" where
  "check_waiting_processes K jiffies =
     foldl (wake_one jiffies) K [0 ..< length (all_processes K)]"

text \<open>
  \<open>apply_aging\<close>. \<open>wait_sec / aging_factor_sec\<close> and the subtraction from
  \<open>base_priority\<close> are computed in \<open>unsigned long\<close>; the assignment to the \<open>int\<close> field
  keeps the low 32 bits, read as a signed value. The entries of the list are updated
  where they stand.
\<close>

definition apply_aging_pcb :: "kernel_env \<Rightarrow> int \<Rightarrow> ulong \<Rightarrow> custom_pcb \<Rightarrow> custom_pcb" where
  "apply_aging_pcb E aging current_jiffies proc =
     (if k_state proc = PROC_READY then
        (let wait_sec = (current_jiffies - last_update_jiffies proc) div HZ E
         in if aging > 0 then
              (let e = sint (ucast (word_of_int (base_priority proc)
                                     - wait_sec div word_of_int aging :: ulong) :: 32 word)
               in proc\<lparr>effective_priority := (if e < 0 then 0 else e)\<rparr>)
            else proc)
      else proc)"

definition apply_aging :: "kernel_env \<Rightarrow> kmod \<Rightarrow> ulong \<Rightarrow> kmod" where
  "apply_aging E K current_jiffies =
     foldl (\<lambda>K' r. kmodify K' r (apply_aging_pcb E (aging_factor_sec K) current_jiffies))
       K (ready_q K)"

text \<open>\<open>select_next_process\<close>.\<close>

definition slot_running :: "kmod \<Rightarrow> bool" where
  "slot_running K =
     (case current_proc K of
        None \<Rightarrow> False
      | Some c \<Rightarrow> k_state (all_processes K ! c) = PROC_RUNNING)"

definition select_next_process :: "kmod \<Rightarrow> ref option \<times> kmod" where
  "select_next_process K =
     (if slot_running K then (current_proc K, K)
      else (case dequeue_process K of
              (None, K1) \<Rightarrow> (None, K1)
            | (Some proc, K1) \<Rightarrow>
                (Some proc,
                 (kmodify K1 proc (\<lambda>p. p\<lparr>k_state := PROC_RUNNING\<rparr>))
                   \<lparr>current_proc := Some proc,
                    k_stats := (k_stats K1)\<lparr>context_switches :=
                                  context_switches (k_stats K1) + 1\<rparr>\<rparr>)))"

text \<open>
  \<open>update_statistics\<close>. The averages and the utilisation are only written when their
  divisor is positive.
\<close>

definition kcount_state :: "proc_state \<Rightarrow> custom_pcb list \<Rightarrow> ulong" where
  "kcount_state st ps = of_nat (length (filter (\<lambda>p. k_state p = st) ps))"

definition update_statistics :: "kmod \<Rightarrow> kmod" where
  "update_statistics K =
     (let ps = all_processes K;
          count = int (length ps);
          total_wait = sum_list (map wait_time_ms ps);
          total_turnaround = sum_list (map turnaround_time_ms ps);
          st1 = (k_stats K)\<lparr>running_processes := kcount_state PROC_RUNNING ps,
                            ready_processes := kcount_state PROC_READY ps,
                            waiting_processes := kcount_state PROC_WAITING ps,
                            terminated_processes := kcount_state PROC_TERMINATED ps,
                            total_processes := word_of_int count\<rparr>;
          st2 = (if count > 0
                 then st1\<lparr>avg_wait_time_ms := total_wait div word_of_int count,
                          avg_turnaround_time_ms := total_turnaround div word_of_int count\<rparr>
                 else st1);
          busy = total_cpu_time_ms st2 + total_idle_time_ms st2;
          st3 = (if busy > 0
                 then st2\<lparr>cpu_utilization_percent := (total_cpu_time_ms st2 * 100) div busy\<rparr>
                 else st2)
      in K\<lparr>k_stats := st3\<rparr>)"

text \<open>
  One iteration of the loop of \<open>scheduler_thread_fn\<close>, in the two halves that the call
  of \<open>msleep\<close> separates: commands written to /proc/sched_stats run while the thread
  sleeps. The loop goes on until the module is unloaded, so a run of the module is a
  sequence of these halves and of writes. \<open>j_wake\<close> and \<open>j_age\<close> are the readings of
  \<open>jiffies\<close> in \<open>check_waiting_processes\<close> and in \<open>apply_aging\<close>.
\<close>

definition thread_begin :: "kernel_env \<Rightarrow> kmod \<Rightarrow> ulong \<Rightarrow> ulong \<Rightarrow> kmod" where
  "thread_begin E K j_wake j_age =
     (if sleeping K \<or> \<not> scheduler_running K then K
      else (let K1 = check_waiting_processes K j_wake;
                K2 = apply_aging E K1 j_age
            in case select_next_process K2 of
                 (Some proc, K3) \<Rightarrow>
                   K3\<lparr>thread_proc := Some proc,
                      exec_time := min (time_quantum_ms K3)
                                     (remaining_time_ms (all_processes K3 ! proc)),
                      sleeping := True\<rparr>
               | (None, K3) \<Rightarrow>
                   K3\<lparr>thread_proc := None,
                      k_stats := (k_stats K3)\<lparr>total_idle_time_ms :=
                                    total_idle_time_ms (k_stats K3)
                                      + word_of_int (time_quantum_ms K3)\<rparr>,
                      sleeping := True\<rparr>))"

text \<open>
  After the sleep: the slice is charged, every READY block waits for as long, and the
  block that ran is left alone when a command made it WAITING, terminated when nothing
  remains, and re-enqueued otherwise.
\<close>

definition charge_wait :: "int \<Rightarrow> custom_pcb \<Rightarrow> custom_pcb" where
  "charge_wait t p =
     (if k_state p = PROC_READY then p\<lparr>wait_time_ms := wait_time_ms p + word_of_int t\<rparr> else p)"

definition post_execute :: "kernel_env \<Rightarrow> kmod \<Rightarrow> ref \<Rightarrow> ulong \<Rightarrow> kmod" where
  "post_execute E K proc jiffies =
     (let K1 = kmodify K proc
                 (\<lambda>p. p\<lparr>remaining_time_ms := remaining_time_ms p - exec_time K\<rparr>);
          K2 = K1\<lparr>k_stats := (k_stats K1)\<lparr>total_cpu_time_ms :=
                                 total_cpu_time_ms (k_stats K1) + word_of_int (exec_time K)\<rparr>\<rparr>;
          K3 = K2\<lparr>all_processes := map (charge_wait (exec_time K)) (all_processes K2)\<rparr>;
          p = all_processes K3 ! proc
      in if k_state p = PROC_WAITING then K3\<lparr>current_proc := None\<rparr>
         else if remaining_time_ms p \<le> 0 then
           (kmodify K3 proc
              (\<lambda>p. p\<lparr>k_state := PROC_TERMINATED,
                      turnaround_time_ms :=
                        jiffies_to_msecs E (jiffies - arrival_time_jiffies p)\<rparr>))
             \<lparr>current_proc := None\<rparr>
         else
           (enqueue_process
              (kmodify K3 proc
                 (\<lambda>p. p\<lparr>k_state := PROC_READY, last_update_jiffies := jiffies\<rparr>)) proc)
             \<lparr>current_proc := None\<rparr>)"

definition thread_end :: "kernel_env \<Rightarrow> kmod \<Rightarrow> ulong \<Rightarrow> kmod" where
  "thread_end E K jiffies =
     (if \<not> sleeping K then K
      else (let K1 = (case thread_proc K of
                        Some proc \<Rightarrow> post_execute E K proc jiffies
                      | None \<Rightarrow> K)
            in (update_statistics K1)\<lparr>sleeping := False\<rparr>))"

text \<open>
  \<open>sched_stats_write\<close>. The argument is what the length test and the \<open>sscanf\<close> calls
  leave of the buffer: \<open>NEW_cmd name burst_time priority\<close> and \<open>WAIT_cmd pid wait_ms\<close>
  for a line whose verb and fields were read, \<open>Malformed\<close> for every buffer the
  function answers with \<open>-EINVAL\<close> before it looks at a value, \<open>Fault\<close> for a failed
  \<open>copy_from_user\<close>. \<open>alloc_ok\<close> says whether \<open>kmalloc\<close> returns a block. The result
  is the error, or \<open>None\<close> when the function returns \<open>count\<close>.
\<close>

datatype write_cmd = NEW_cmd string int int | WAIT_cmd int int | Malformed | Fault

datatype kerrno = EINVAL | ENOMEM | EFAULT

definition new_pcb :: "int \<Rightarrow> string \<Rightarrow> int \<Rightarrow> int \<Rightarrow> ulong \<Rightarrow> custom_pcb" where
  "new_pcb pid0 name0 burst_time priority jiffies =
     \<lparr>k_pid = pid0, k_name = take 31 name0, base_priority = priority,
      effective_priority = priority, burst_time_ms = burst_time,
      remaining_time_ms = burst_time, k_state = PROC_READY,
      arrival_time_jiffies = jiffies, wait_time_ms = 0, turnaround_time_ms = 0,
      last_update_jiffies = jiffies, wakeup_time_jiffies = 0\<rparr>"

definition cmd_new :: "kmod \<Rightarrow> string \<Rightarrow> int \<Rightarrow> int \<Rightarrow> bool \<Rightarrow> ulong \<Rightarrow> kerrno option \<times> kmod" where
  "cmd_new K name0 burst_time priority alloc_ok jiffies =
     (if burst_time \<le> 0 \<or> priority < 0 \<or> priority > 10 then (Some EINVAL, K)
      else if \<not> alloc_ok then (Some ENOMEM, K)
      else (let K1 = K\<lparr>next_pid := next_pid K + 1\<rparr>;
                proc = length (all_processes K1);
                K2 = K1\<lparr>all_processes := all_processes K1
                          @ [new_pcb (next_pid K1) name0 burst_time priority jiffies]\<rparr>
            in (None, enqueue_process K2 proc)))"

definition cmd_wait :: "kernel_env \<Rightarrow> kmod \<Rightarrow> int \<Rightarrow> int \<Rightarrow> ulong \<Rightarrow> kerrno option \<times> kmod" where
  "cmd_wait E K pid0 wait_ms jiffies =
     (case find_first (\<lambda>p. k_pid p = pid0) (all_processes K) of
        None \<Rightarrow> (None, K)
      | Some r \<Rightarrow>
          (let st = k_state (all_processes K ! r)
           in if st = PROC_RUNNING \<or> st = PROC_READY then
                (let K1 = (if st = PROC_RUNNING then K\<lparr>current_proc := None\<rparr>
                           else K\<lparr>ready_q := remove1 r (ready_q K),
                                  ready_q_count := ready_q_count K - 1\<rparr>)
                 in (None, kmodify K1 r
                             (\<lambda>p. p\<lparr>k_state := PROC_WAITING,
                                     wakeup_time_jiffies :=
                                       jiffies + msecs_to_jiffies E wait_ms\<rparr>)))
              else (None, K)))"

definition sched_stats_write ::
  "kernel_env \<Rightarrow> kmod \<Rightarrow> write_cmd \<Rightarrow> bool \<Rightarrow> ulong \<Rightarrow> kerrno option \<times> kmod" where
  "sched_stats_write E K cmd alloc_ok jiffies =
     (case cmd of
        NEW_cmd name0 burst_time priority \<Rightarrow> cmd_new K name0 burst_time priority alloc_ok jiffies
      | WAIT_cmd pid0 wait_ms \<Rightarrow> cmd_wait E K pid0 wait_ms jiffies
      | Malformed \<Rightarrow> (Some EINVAL, K)
      | Fault \<Rightarrow> (Some EFAULT, K))"

datatype kevent =
    Write write_cmd bool ulong
  | ThreadBegin ulong ulong
  | ThreadEnd ulong
  | SetParamQuantum int
  | SetParamAging int

fun kstep :: "kernel_env \<Rightarrow> kmod \<Rightarrow> kevent \<Rightarrow> kmod" where
  "kstep E K (Write cmd alloc_ok jiffies) = snd (sched_stats_write E K cmd alloc_ok jiffies)"
| "kstep E K (ThreadBegin j_wake j_age) = thread_begin E K j_wake j_age"
| "kstep E K (ThreadEnd jiffies) = thread_end E K jiffies"
| "kstep E K (SetParamQuantum ms) = K\<lparr>time_quantum_ms := ms\<rparr>"
| "kstep E K (SetParamAging seconds) = K\<lparr>aging_factor_sec := seconds\<rparr>"

definition krun :: "kernel_env \<Rightarrow> kmod \<Rightarrow> kevent list \<Rightarrow> kmod" where
  "krun E K es = foldl (kstep E) K es"

section \<open>Example environment\<close>

text \<open>A kernel built with \<open>HZ = 1000\<close>: one jiffy is one millisecond.\<close>

definition env_1000 :: kernel_env where
  "env_1000 = \<lparr>HZ = 1000, msecs_to_jiffies = word_of_int, jiffies_to_msecs = (\<lambda>j. j)\<rparr>"

section \<open>Predicates of the statements\<close>

text \<open>
  What one run of \<open>updateStats\<close> at time \<open>t\<close> does to the PCB at position \<open>i\<close>,
  between the state \<open>s\<close> before a call and the state \<open>s'\<close> after it.
\<close>

definition accrued :: "Scheduler \<Rightarrow> int \<Rightarrow> Scheduler \<Rightarrow> nat \<Rightarrow> bool" where
  "accrued s t s' i =
     (let p = allProcesses s ! i; p' = allProcesses s' ! i
      in waitTime p' = waitTime p + (if state p' = READY then timeQuantumMs s else 0)
       \<and> turnaroundTime p' =
           (if state p' \<noteq> TERMINATED then t - arrivalTime p else turnaroundTime p))"

text \<open>The effect of an accepted \<open>NEW\<close> command, and of \<open>createProcess\<close>.\<close>

definition kernel_created :: "kmod \<Rightarrow> int \<Rightarrow> int \<Rightarrow> kmod \<Rightarrow> bool" where
  "kernel_created K burst_time priority K' =
     (let r = length (all_processes K); p = all_processes K' ! r
      in length (all_processes K') = Suc r \<and> take r (all_processes K') = all_processes K
       \<and> k_pid p = next_pid K + 1 \<and> next_pid K' = next_pid K + 1
       \<and> base_priority p = priority \<and> effective_priority p = priority
       \<and> burst_time_ms p = burst_time \<and> remaining_time_ms p = burst_time
       \<and> k_state p = PROC_READY \<and> r \<in> set (ready_q K')
       \<and> ready_q_count K' = ready_q_count K + 1)"

definition simulator_created :: "Scheduler \<Rightarrow> int \<Rightarrow> int \<Rightarrow> ref \<times> Scheduler \<Rightarrow> bool" where
  "simulator_created s priority burstTime0 res =
     (let r = fst res; s' = snd res; p = allProcesses s' ! r
      in r = length (allProcesses s) \<and> length (allProcesses s') = Suc r
       \<and> pid p = nextPid s \<and> nextPid s' = nextPid s + 1
       \<and> basePriority p = priority \<and> effectivePriority p = priority
       \<and> burstTime p = burstTime0 \<and> remainingTime p = burstTime0
       \<and> state p = READY \<and> r \<in> set (readyQueue s'))"

text \<open>
  The effect of \<open>blockProcess\<close>, and of a \<open>WAIT\<close> command whose pid belongs to the
  PCB at position \<open>r\<close>.
\<close>

definition simulator_blocked :: "Scheduler \<Rightarrow> int \<Rightarrow> Scheduler \<Rightarrow> bool" where
  "simulator_blocked s pid0 s' =
     (readyQueue s' = readyQueue s \<and> blockedProcesses s' = blockedProcesses s
      \<and> currentProcess s' = currentProcess s
      \<and> map state (allProcesses s') =
          (case find_first (\<lambda>p. pid p = pid0 \<and> state p = RUNNING) (allProcesses s) of
             None \<Rightarrow> map state (allProcesses s)
           | Some r \<Rightarrow> (map state (allProcesses s))[r := WAITING]))"

definition kernel_blocked ::
  "kernel_env \<Rightarrow> kmod \<Rightarrow> ref \<Rightarrow> int \<Rightarrow> ulong \<Rightarrow> kerrno option \<times> kmod \<Rightarrow> bool" where
  "kernel_blocked E K r wait_ms jiffies res =
     (let K' = snd res; p = all_processes K ! r; p' = all_processes K' ! r
      in fst res = None
       \<and> (if k_state p = PROC_RUNNING then
            p' = p\<lparr>k_state := PROC_WAITING,
                   wakeup_time_jiffies := jiffies + msecs_to_jiffies E wait_ms\<rparr>
            \<and> current_proc K' = None \<and> ready_q K' = ready_q K
            \<and> K'\<lparr>all_processes := all_processes K, current_proc := current_proc K\<rparr> = K
          else if k_state p = PROC_READY then
            p' = p\<lparr>k_state := PROC_WAITING,
                   wakeup_time_jiffies := jiffies + msecs_to_jiffies E wait_ms\<rparr>
            \<and> ready_q K' = remove1 r (ready_q K)
            \<and> ready_q_count K' = ready_q_count K - 1
            \<and> current_proc K' = current_proc K
            \<and> K'\<lparr>all_processes := all_processes K, ready_q := ready_q K,
                  ready_q_count := ready_q_count K\<rparr> = K
          else K' = K)
       \<and> all_processes K' = (all_processes K)[r := p'])"

text \<open>
  The bound on the remaining time, for the simulator: the events of an admissible run
  create processes with a burst time that is not negative and set no negative quantum.
\<close>

definition remaining_ok :: "Process \<Rightarrow> bool" where
  "remaining_ok p = (0 \<le> remainingTime p \<and> remainingTime p \<le> burstTime p)"

definition sim_inv :: "Scheduler \<Rightarrow> bool" where
  "sim_inv s = (list_all remaining_ok (allProcesses s) \<and> 0 \<le> timeQuantumMs s)"


text \<open>
  The same for the kernel module. The pointers of the ready queue, of the running slot
  and of the sleeping thread refer to existing blocks, and the slice the thread has
  computed before its sleep is at most what remains.
\<close>

definition kremaining_ok :: "custom_pcb \<Rightarrow> bool" where
  "kremaining_ok p = (0 \<le> remaining_time_ms p \<and> remaining_time_ms p \<le> burst_time_ms p)"

definition refs_ok :: "kmod \<Rightarrow> bool" where
  "refs_ok K =
     (list_all (\<lambda>r. r < length (all_processes K)) (ready_q K)
      \<and> pred_option (\<lambda>c. c < length (all_processes K)) (current_proc K))"


definition kinv0 :: "kmod \<Rightarrow> bool" where
  "kinv0 K = (list_all kremaining_ok (all_processes K) \<and> 0 \<le> time_quantum_ms K \<and> refs_ok K)"



text \<open>The quotient \<open>wait_sec / aging_factor_sec\<close> that \<open>apply_aging\<close> computes.\<close>

definition aging_steps :: "kernel_env \<Rightarrow> int \<Rightarrow> ulong \<Rightarrow> custom_pcb \<Rightarrow> int" where
  "aging_steps E aging current_jiffies proc =
     uint (((current_jiffies - last_update_jiffies proc) div HZ E) div word_of_int aging)"

text \<open>The keys of the ready queue of the kernel module, in queue order.\<close>

definition queue_keys :: "custom_pcb list \<Rightarrow> ref list \<Rightarrow> int list" where
  "queue_keys store q = map (\<lambda>r. effective_priority (store ! r)) q"

section \<open>Properties\<close>

subsection \<open>Frame lemmas of the simulator\<close>

lemma updateStats_proc_state [simp]: "state (updateStats_proc q t p) = state p"
  by (simp add: updateStats_proc_def Let_def)

lemma updateStats_proc_waitTime:
  "waitTime (updateStats_proc q t p) = waitTime p + (if state p = READY then q else 0)"
  by (simp add: updateStats_proc_def Let_def)

lemma updateStats_proc_turnaroundTime:
  "turnaroundTime (updateStats_proc q t p) =
     (if state p \<noteq> TERMINATED then t - arrivalTime p else turnaroundTime p)"
  by (simp add: updateStats_proc_def Let_def)

lemma updateStats_proc_fixed [simp]:
  "pid (updateStats_proc q t p) = pid p"
  "name (updateStats_proc q t p) = name p"
  "basePriority (updateStats_proc q t p) = basePriority p"
  "effectivePriority (updateStats_proc q t p) = effectivePriority p"
  "burstTime (updateStats_proc q t p) = burstTime p"
  "remainingTime (updateStats_proc q t p) = remainingTime p"
  "arrivalTime (updateStats_proc q t p) = arrivalTime p"
  by (simp_all add: updateStats_proc_def Let_def)

lemma allProcesses_updateStats:
  "allProcesses (updateStats s t) = map (updateStats_proc (timeQuantumMs s) t) (allProcesses s)"
  by (simp add: updateStats_def Let_def)

lemma updateStats_frame [simp]:
  "readyQueue (updateStats s t) = readyQueue s"
  "currentProcess (updateStats s t) = currentProcess s"
  "blockedProcesses (updateStats s t) = blockedProcesses s"
  "timeQuantumMs (updateStats s t) = timeQuantumMs s"
  "agingFactorSec (updateStats s t) = agingFactorSec s"
  "ioSimulationCounter (updateStats s t) = ioSimulationCounter s"
  "nextPid (updateStats s t) = nextPid s"
  "running (updateStats s t) = running s"
  "paused (updateStats s t) = paused s"
  "contextSwitchCount (stats (updateStats s t)) = contextSwitchCount (stats s)"
  by (simp_all add: updateStats_def Let_def)

lemma modify_frame [simp]:
  "readyQueue (modify s r f) = readyQueue s"
  "currentProcess (modify s r f) = currentProcess s"
  "blockedProcesses (modify s r f) = blockedProcesses s"
  "timeQuantumMs (modify s r f) = timeQuantumMs s"
  "agingFactorSec (modify s r f) = agingFactorSec s"
  "ioSimulationCounter (modify s r f) = ioSimulationCounter s"
  "nextPid (modify s r f) = nextPid s"
  "running (modify s r f) = running s"
  "paused (modify s r f) = paused s"
  "stats (modify s r f) = stats s"
  "length (allProcesses (modify s r f)) = length (allProcesses s)"
  by (simp_all add: modify_def)

lemma modify_nth:
  "i < length (allProcesses s) \<Longrightarrow>
   allProcesses (modify s r f) ! i = (if i = r then f (allProcesses s ! i) else allProcesses s ! i)"
  by (simp add: modify_def nth_list_update)

lemma setState_fields [simp]:
  "state (setState p st) = st"
  "waitTime (setState p st) = waitTime p"
  "turnaroundTime (setState p st) = turnaroundTime p"
  "arrivalTime (setState p st) = arrivalTime p"
  "pid (setState p st) = pid p"
  "basePriority (setState p st) = basePriority p"
  "effectivePriority (setState p st) = effectivePriority p"
  "burstTime (setState p st) = burstTime p"
  "remainingTime (setState p st) = remainingTime p"
  by (simp_all add: setState_def)

lemma accrued_after_modify:
  assumes "i < length (allProcesses s)"
  shows "accrued s t (updateStats (modify s r (\<lambda>p. setState p st)) t) i"
  using assms
  by (simp add: accrued_def Let_def allProcesses_updateStats modify_nth
      updateStats_proc_waitTime updateStats_proc_turnaroundTime)

lemma accrued_terminate:
  "i < length (allProcesses s) \<Longrightarrow> accrued s t (terminateProcess s pid0 t) i"
  apply (simp add: terminateProcess_def Let_def split: option.split)
  apply (intro conjI impI allI)
   apply (simp add: accrued_def Let_def allProcesses_updateStats updateStats_proc_waitTime updateStats_proc_turnaroundTime)
  apply (erule accrued_after_modify)
  done


lemma accrued_updateStats:
  "i < length (allProcesses s) \<Longrightarrow> accrued s t (updateStats s t) i"
  by (simp add: accrued_def Let_def allProcesses_updateStats
      updateStats_proc_waitTime updateStats_proc_turnaroundTime)

lemma accrued_block:
  "i < length (allProcesses s) \<Longrightarrow> accrued s t (blockProcess s pid0 t) i"
  by (simp add: blockProcess_def Let_def accrued_updateStats accrued_after_modify
      split: option.split)

lemma accrued_mono_fields:
  assumes "allProcesses s1 = allProcesses s2" "timeQuantumMs s1 = timeQuantumMs s2"
  shows "allProcesses (updateStats s1 t) = allProcesses (updateStats s2 t)"
  using assms by (simp add: allProcesses_updateStats)

lemma accrued_cong:
  "allProcesses s1 = allProcesses s2 \<Longrightarrow> accrued s t s1 i = accrued s t s2 i"
  by (simp add: accrued_def)

lemma accrued_unblock:
  assumes "i < length (allProcesses s)"
  shows "accrued s t (unblockProcess s pid0 t) i"
proof (cases "find_first (\<lambda>p. pid p = pid0 \<and> state p = WAITING) (allProcesses s)")
  case None
  then show ?thesis using assms by (simp add: unblockProcess_def accrued_updateStats)
next
  case (Some r)
  let ?m = "modify s r (\<lambda>p. setState p READY)"
  have "allProcesses (updateStats (?m\<lparr>readyQueue := ReadyQueue_enqueue (allProcesses ?m) (readyQueue ?m) r\<rparr>) t)
      = allProcesses (updateStats ?m t)"
    by (rule accrued_mono_fields) simp_all
  then have "accrued s t (updateStats (?m\<lparr>readyQueue := ReadyQueue_enqueue (allProcesses ?m) (readyQueue ?m) r\<rparr>) t) i
      = accrued s t (updateStats ?m t) i"
    by (rule accrued_cong)
  with Some accrued_after_modify [OF assms, of t r READY] show ?thesis
    by (simp add: unblockProcess_def Let_def)
qed

lemma allProcesses_createProcess:
  "allProcesses (snd (createProcess s n pr b a t)) =
     map (updateStats_proc (timeQuantumMs s) t)
       (allProcesses s @ [(Process_ctor (nextPid s) n pr b)\<lparr>arrivalTime := a, state := READY\<rparr>])"
  by (simp add: createProcess_def Let_def allProcesses_updateStats modify_def setState_def
      Process_ctor_def)

lemma accrued_create:
  assumes "i < length (allProcesses s)"
  shows "accrued s t (snd (createProcess s n pr b a t)) i"
  using assms
  by (simp add: accrued_def Let_def allProcesses_createProcess nth_append
      updateStats_proc_waitTime updateStats_proc_turnaroundTime)

lemma create_new_waitTime:
  "waitTime (allProcesses (snd (createProcess s n pr b a t)) ! length (allProcesses s))
     = timeQuantumMs s"
  by (simp add: allProcesses_createProcess nth_append updateStats_proc_waitTime Process_ctor_def)

subsection \<open>The priority queue of the simulator\<close>

text \<open>
  Four processes of equal priority, pushed in the order 0, 1, 2, 3, leave the heap in
  the order 0, 2, 1, 3: the queue of the simulator is not first-in first-out among
  equal priorities.
\<close>

lemma priority_queue_tie_order:
  "(let store = map (\<lambda>i. Process_ctor i ''p'' 5 100) [0, 1, 2, 3];
        q0 = foldl (pq_push store) [] [0, 1, 2, 3];
        q1 = pq_pop store q0;
        q2 = pq_pop store q1;
        q3 = pq_pop store q2
    in [pq_top q0, pq_top q1, pq_top q2, pq_top q3] = [Some 0, Some 2, Some 1, Some 3]
     \<and> pq_pop store q3 = [])"
  by code_simp

subsection \<open>Frame lemmas of the kernel module\<close>

lemma find_first_Some:
  "find_first P xs = Some r \<Longrightarrow> r < length xs \<and> P (xs ! r)"
proof (induction xs arbitrary: r)
  case Nil
  then show ?case by simp
next
  case (Cons x xs)
  show ?case
  proof (cases "P x")
    case True
    with Cons.prems show ?thesis by simp
  next
    case False
    with Cons.prems obtain r' where "find_first P xs = Some r'" "r = Suc r'"
      by (auto simp: map_option_case split: option.splits)
    with Cons.IH show ?thesis by simp
  qed
qed

lemma find_first_None: "find_first P xs = None \<Longrightarrow> x \<in> set xs \<Longrightarrow> \<not> P x"
  by (induction xs) (auto split: if_splits)

lemma find_first_None_iff: "(find_first P xs = None) = (\<forall>x\<in>set xs. \<not> P x)"
  by (induction xs) auto

lemma set_insert_by_priority:
  "set (insert_by_priority store proc q) = insert proc (set q)"
  by (induction q) auto

lemma kmodify_frame [simp]:
  "time_quantum_ms (kmodify K r f) = time_quantum_ms K"
  "aging_factor_sec (kmodify K r f) = aging_factor_sec K"
  "ready_q (kmodify K r f) = ready_q K"
  "ready_q_count (kmodify K r f) = ready_q_count K"
  "current_proc (kmodify K r f) = current_proc K"
  "k_stats (kmodify K r f) = k_stats K"
  "scheduler_running (kmodify K r f) = scheduler_running K"
  "next_pid (kmodify K r f) = next_pid K"
  "thread_proc (kmodify K r f) = thread_proc K"
  "exec_time (kmodify K r f) = exec_time K"
  "sleeping (kmodify K r f) = sleeping K"
  "length (all_processes (kmodify K r f)) = length (all_processes K)"
  by (simp_all add: kmodify_def)


lemma enqueue_process_frame [simp]:
  "time_quantum_ms (enqueue_process K r) = time_quantum_ms K"
  "aging_factor_sec (enqueue_process K r) = aging_factor_sec K"
  "current_proc (enqueue_process K r) = current_proc K"
  "k_stats (enqueue_process K r) = k_stats K"
  "scheduler_running (enqueue_process K r) = scheduler_running K"
  "next_pid (enqueue_process K r) = next_pid K"
  "thread_proc (enqueue_process K r) = thread_proc K"
  "exec_time (enqueue_process K r) = exec_time K"
  "sleeping (enqueue_process K r) = sleeping K"
  "all_processes (enqueue_process K r) = all_processes K"
  "ready_q_count (enqueue_process K r) = ready_q_count K + 1"
  "set (ready_q (enqueue_process K r)) = insert r (set (ready_q K))"
  by (simp_all add: enqueue_process_def set_insert_by_priority)

lemma cmd_new_rejects:
  "burst_time \<le> 0 \<or> priority < 0 \<or> 10 < priority \<Longrightarrow>
   sched_stats_write E K (NEW_cmd n burst_time priority) ok j = (Some EINVAL, K)"
  by (auto simp: sched_stats_write_def cmd_new_def)

lemma cmd_new_nomem:
  "0 < burst_time \<Longrightarrow> 0 \<le> priority \<Longrightarrow> priority \<le> 10 \<Longrightarrow>
   sched_stats_write E K (NEW_cmd n burst_time priority) False j = (Some ENOMEM, K)"
  by (auto simp: sched_stats_write_def cmd_new_def)

lemma cmd_new_accepts:
  assumes "0 < burst_time" "0 \<le> priority" "priority \<le> 10"
  shows "fst (sched_stats_write E K (NEW_cmd n burst_time priority) True j) = None"
    and "kernel_created K burst_time priority
           (snd (sched_stats_write E K (NEW_cmd n burst_time priority) True j))"
  using assms
  by (simp_all add: sched_stats_write_def cmd_new_def Let_def kernel_created_def new_pcb_def)

lemma createProcess_creates:
  "simulator_created s priority burstTime0 (createProcess s n priority burstTime0 a t)"
proof -
  have "fst (createProcess s n priority burstTime0 a t) = length (allProcesses s)"
    by (simp add: createProcess_def Let_def)
  moreover have "length (allProcesses s) \<in> set (readyQueue (snd (createProcess s n priority burstTime0 a t)))"
    by (simp add: createProcess_def Let_def ReadyQueue_enqueue_def pq_push_mem)
  moreover have "nextPid (snd (createProcess s n priority burstTime0 a t)) = nextPid s + 1"
    by (simp add: createProcess_def Let_def)
  ultimately show ?thesis
    by (simp add: simulator_created_def Let_def allProcesses_createProcess nth_append
        Process_ctor_def)
qed

subsection \<open>Aging of the effective priority\<close>

lemma narrow_difference:
  fixes w :: ulong
  assumes "- (2 ^ 31) \<le> b - uint w" "b - uint w < 2 ^ 31"
  shows "sint (ucast (word_of_int b - w) :: 32 word) = b - uint w"
proof -
  have eq: "word_of_int b - w = (word_of_int (b - uint w) :: ulong)"
    by simp
  have "(ucast (word_of_int b - w) :: 32 word)
      = ucast (word_of_int (b - uint w) :: ulong)"
    by (simp only: eq)
  also have "\<dots> = word_of_int (b - uint w)"
    by (rule ucast_down_wi) (simp add: is_down)
  finally have "sint (ucast (word_of_int b - w) :: 32 word)
      = sint (word_of_int (b - uint w) :: 32 word)"
    by (rule arg_cong)
  also have "\<dots> = signed_take_bit 31 (b - uint w)"
    by (subst sint_sbintrunc') simp
  also from assms have "\<dots> = b - uint w"
    by (rule signed_take_bit_int_eq_self)
  finally show ?thesis .
qed

lemma apply_aging_pcb_formula:
  assumes "k_state proc = PROC_READY" "0 < aging"
    "0 \<le> base_priority proc" "base_priority proc \<le> 10"
    "aging_steps E aging now proc < 2 ^ 31"
  shows "effective_priority (apply_aging_pcb E aging now proc)
           = max 0 (base_priority proc - aging_steps E aging now proc)"
proof -
  let ?w = "((now - last_update_jiffies proc) div HZ E) div word_of_int aging"
  have pow: "(2::int) ^ 31 = 2147483648" by simp
  have w: "0 \<le> uint ?w" "uint ?w < 2 ^ 31"
    using assms(5) by (simp_all add: aging_steps_def)
  have "- (2 ^ 31) \<le> base_priority proc - uint ?w"
    using w(2) assms(3) unfolding pow by linarith
  moreover have "base_priority proc - uint ?w < 2 ^ 31"
    using w(1) assms(4) unfolding pow by linarith
  ultimately have
    "sint (ucast (word_of_int (base_priority proc) - ?w) :: 32 word)
       = base_priority proc - uint ?w"
    by (rule narrow_difference)
  with assms(1,2) show ?thesis
    by (simp add: apply_aging_pcb_def Let_def aging_steps_def max_def)
qed

lemma apply_aging_pcb_noop:
  "aging \<le> 0 \<or> k_state proc \<noteq> PROC_READY \<Longrightarrow> apply_aging_pcb E aging now proc = proc"
  by (auto simp: apply_aging_pcb_def Let_def)

lemma apply_aging_pcb_bounds:
  assumes "0 \<le> base_priority proc" "base_priority proc \<le> 10"
    "0 \<le> effective_priority proc" "effective_priority proc \<le> base_priority proc"
    "aging_steps E aging now proc < 2 ^ 31"
  shows "0 \<le> effective_priority (apply_aging_pcb E aging now proc)
       \<and> effective_priority (apply_aging_pcb E aging now proc) \<le> base_priority proc
       \<and> base_priority (apply_aging_pcb E aging now proc) = base_priority proc"
proof (cases "k_state proc = PROC_READY \<and> 0 < aging")
  case True
  have "0 \<le> aging_steps E aging now proc" by (simp add: aging_steps_def)
  with True assms apply_aging_pcb_formula [of proc aging E now] show ?thesis
    by (simp add: apply_aging_pcb_def Let_def)
next
  case False
  then have "apply_aging_pcb E aging now proc = proc"
    by (intro apply_aging_pcb_noop) auto
  with assms show ?thesis by simp
qed

text \<open>
  Claim C1: \<open>apply_aging\<close> sets the effective priority of every member of the ready
  structure to \<open>max(0, base_priority - waited_sec div aging_factor_sec)\<close> when the aging
  factor is positive, and changes nothing otherwise.
  The simulator does not: \<open>ReadyQueue::applyAging\<close> on a READY process of base priority 5
  that has accumulated 1000 ms of wait time yields, with aging factor 5, the effective
  priority \<open>5 + 1000 div 5 = 205\<close>, where the claim allows at most 5; with aging factor 0
  it divides by zero, where the claim asks for no change.
\<close>

theorem C1_simulator_aging_adds:
  "ReadyQueue_applyAging
     [(Process_ctor 1 ''A'' 5 300)\<lparr>state := READY, waitTime := 1000\<rparr>] [0] 5
   = Inr ([(Process_ctor 1 ''A'' 5 300)
             \<lparr>state := READY, waitTime := 1000, effectivePriority := 205\<rparr>], [0])
   \<and> ReadyQueue_applyAging
       [(Process_ctor 1 ''A'' 5 300)\<lparr>state := READY, waitTime := 1000\<rparr>] [0] 0
     = Inl DivisionByZero"
  by code_simp

subsection \<open>Bounds of the priorities\<close>

text \<open>
  Claim C2: in every reachable state every PCB has
  \<open>0 \<le> effective_priority \<le> base_priority \<le> 10\<close>.
  In the simulator two creations and one iteration of the engine reach a state where
  the waiting process B, of base priority 5, has effective priority 25.
\<close>

theorem C2_simulator_priority_exceeds_base:
  "(case run Scheduler_init
           [Start, Create ''A'' 3 1000 0 0, Create ''B'' 5 1000 0 0, Iteration 0 100] of
      Inl e \<Rightarrow> False
    | Inr s' \<Rightarrow>
        basePriority (allProcesses s' ! 1) = 5
      \<and> effectivePriority (allProcesses s' ! 1) = 25
      \<and> state (allProcesses s' ! 1) = READY
      \<and> readyQueue s' = [1])"
  by code_simp

subsection \<open>Order of the ready structure\<close>

lemma insert_by_priority_position:
  "insert_by_priority store proc q =
     takeWhile (\<lambda>r. effective_priority (store ! r) \<le> effective_priority (store ! proc)) q
     @ proc # dropWhile (\<lambda>r. effective_priority (store ! r) \<le> effective_priority (store ! proc)) q"
  by (induction q) auto

lemma insert_by_priority_sorted:
  assumes "sorted (queue_keys store q)"
  shows "sorted (queue_keys store (insert_by_priority store proc q))"
  using assms
proof (induction q)
  case Nil
  then show ?case by (simp add: queue_keys_def)
next
  case (Cons pos rest)
  show ?case
  proof (cases "effective_priority (store ! proc) < effective_priority (store ! pos)")
    case True
    with Cons.prems show ?thesis
      by (auto simp: queue_keys_def)
  next
    case False
    from Cons.prems have rest: "sorted (queue_keys store rest)"
      by (simp add: queue_keys_def)
    have "set (insert_by_priority store proc rest) = insert proc (set rest)"
      by (rule set_insert_by_priority)
    with False Cons.prems Cons.IH [OF rest] show ?thesis
      by (auto simp: queue_keys_def)
  qed
qed

lemma enqueue_process_sorted:
  "sorted (queue_keys (all_processes K) (ready_q K)) \<Longrightarrow>
   sorted (queue_keys (all_processes (enqueue_process K proc)) (ready_q (enqueue_process K proc)))"
  by (simp add: enqueue_process_def insert_by_priority_sorted)

lemma dequeue_process_least:
  assumes "sorted (queue_keys (all_processes K) (ready_q K))"
    "dequeue_process K = (Some proc, K')" "r \<in> set (ready_q K)"
  shows "effective_priority (all_processes K ! proc) \<le> effective_priority (all_processes K ! r)"
  using assms
  by (auto simp: dequeue_process_def queue_keys_def split: list.splits)

lemma dequeue_process_sorted:
  assumes "sorted (queue_keys (all_processes K) (ready_q K))"
  shows "sorted (queue_keys (all_processes (snd (dequeue_process K)))
                   (ready_q (snd (dequeue_process K))))"
  using assms
  by (auto simp: dequeue_process_def queue_keys_def split: list.splits)

lemma remove1_sorted:
  "sorted (queue_keys store q) \<Longrightarrow> sorted (queue_keys store (remove1 r q))"
  unfolding queue_keys_def by (rule sorted_map_remove1)

lemma ready_q_apply_aging [simp]: "ready_q (apply_aging E K j) = ready_q K"
proof -
  have "ready_q (foldl (\<lambda>K' r. kmodify K' r (apply_aging_pcb E a j)) K rs) = ready_q K" for rs a
    by (induction rs arbitrary: K) simp_all
  then show ?thesis by (simp add: apply_aging_def)
qed

lemma post_execute_waiting:
  assumes "r < length (all_processes K)" "k_state (all_processes K ! r) = PROC_WAITING"
  shows "current_proc (post_execute E K r j) = None"
    and "ready_q (post_execute E K r j) = ready_q K"
    and "k_state (all_processes (post_execute E K r j) ! r) = PROC_WAITING"
  using assms
  by (simp_all add: post_execute_def Let_def kmodify_def charge_wait_def)

text \<open>
  Claim C3: after every operation of the ready structure it is ordered by ascending
  effective priority, ties in insertion order; \<open>dequeue\<close> returns the member of least
  effective priority, and \<open>apply_aging\<close> restores the order for the new keys.
  In the kernel module \<open>apply_aging\<close> rewrites the keys where the entries stand. With a
  quantum of 5000 ms, three processes A, B (priority 3) and C (priority 4) created at
  time 0 and two rounds of the thread, the third round's aging at 10 s leaves the queue
  B, A, C with the effective priorities 3, 2, 2, and the thread dispatches B.
\<close>

theorem C3_kernel_aging_leaves_queue_unsorted:
  "(let K = krun env_1000 custom_scheduler_init
              [SetParamQuantum 5000,
               Write (NEW_cmd ''A'' 100000 3) True 0,
               Write (NEW_cmd ''B'' 100000 3) True 0,
               Write (NEW_cmd ''C'' 100000 4) True 0,
               ThreadBegin 0 0, ThreadEnd 5000, ThreadBegin 5000 5000, ThreadEnd 10000];
        K' = apply_aging env_1000 K 10000
    in ready_q K' = [1, 0, 2]
     \<and> map (\<lambda>r. effective_priority (all_processes K' ! r)) (ready_q K') = [3, 2, 2]
     \<and> fst (dequeue_process K') = Some 1
     \<and> thread_proc (thread_begin env_1000 K 10000 10000) = Some 1)"
  by code_simp

subsection \<open>Killing a process\<close>

text \<open>
  Claim C4: after \<open>kill(pid)\<close> the PCB is TERMINATED and is never dispatched again; a
  PCB killed while READY is skipped or dropped by the next dispatch.
  In the simulator a process killed while READY stays in the ready queue, and the next
  iteration dequeues it, marks it RUNNING and executes it for a quantum.
\<close>

theorem C4_simulator_killed_ready_process_runs:
  "(case run Scheduler_init [Start, Create ''A'' 5 300 0 0, Kill 1 50] of
      Inl e \<Rightarrow> False
    | Inr s1 \<Rightarrow>
        state (allProcesses s1 ! 0) = TERMINATED
      \<and> remainingTime (allProcesses s1 ! 0) = 300
      \<and> terminatedProcesses (stats s1) = 1
      \<and> readyQueue s1 = [0]
      \<and> (case schedulerLoop_body s1 0 100 of
            Inl e \<Rightarrow> False
          | Inr s2 \<Rightarrow>
              state (allProcesses s2 ! 0) = RUNNING
            \<and> remainingTime (allProcesses s2 ! 0) = 200
            \<and> currentProcess s2 = Some 0
            \<and> terminatedProcesses (stats s2) = 0))"
  by code_simp

subsection \<open>Creating a process\<close>

text \<open>
  Claim C5, as stated: \<open>create\<close> with a priority outside 0..10 or a burst time that is
  not positive is rejected and changes no state. \<open>Scheduler::createProcess\<close> has no
  test of its arguments: with priority 11 and burst time 0 it allocates a PCB, consumes
  pid 1 and enqueues the PCB.
\<close>

theorem C5_counterexample:
  "(let s' = snd (createProcess Scheduler_init ''x'' 11 0 0 0)
    in s' \<noteq> Scheduler_init
     \<and> length (allProcesses s') = 1 \<and> nextPid s' = 2 \<and> readyQueue s' = [0]
     \<and> basePriority (allProcesses s' ! 0) = 11 \<and> burstTime (allProcesses s' ! 0) = 0
     \<and> state (allProcesses s' ! 0) = READY
     \<and> allProcesses Scheduler_init = [] \<and> nextPid Scheduler_init = 1
     \<and> readyQueue Scheduler_init = [])"
proof -
  have "nextPid (snd (createProcess Scheduler_init ''x'' 11 0 0 0)) = 2"
    by code_simp
  moreover have "nextPid Scheduler_init = 1"
    by code_simp
  ultimately have "snd (createProcess Scheduler_init ''x'' 11 0 0 0) \<noteq> Scheduler_init"
    by auto
  moreover have "(let s' = snd (createProcess Scheduler_init ''x'' 11 0 0 0)
    in length (allProcesses s') = 1 \<and> nextPid s' = 2 \<and> readyQueue s' = [0]
     \<and> basePriority (allProcesses s' ! 0) = 11 \<and> burstTime (allProcesses s' ! 0) = 0
     \<and> state (allProcesses s' ! 0) = READY
     \<and> allProcesses Scheduler_init = [] \<and> nextPid Scheduler_init = 1
     \<and> readyQueue Scheduler_init = [])"
    by code_simp
  ultimately show ?thesis by (simp add: Let_def)
qed

text \<open>
  Claim C5, amended: the \<open>NEW\<close> command of the kernel module is rejected with
  \<open>EINVAL\<close> and changes nothing when the burst time is not positive or the priority
  is outside 0..10; with valid arguments it fails with \<open>ENOMEM\<close> and changes nothing
  when no memory is available, and otherwise appends a PCB with the next pid, effective
  priority equal to base priority, remaining time equal to burst time and state READY,
  and enqueues it. \<open>createProcess\<close> of the simulator never rejects: for all arguments
  it appends such a PCB and enqueues it.
\<close>

theorem C5_create:
  "(burst_time \<le> 0 \<or> priority < 0 \<or> 10 < priority \<longrightarrow>
      sched_stats_write E K (NEW_cmd n burst_time priority) ok j = (Some EINVAL, K))
   \<and> (0 < burst_time \<and> 0 \<le> priority \<and> priority \<le> 10 \<longrightarrow>
      sched_stats_write E K (NEW_cmd n burst_time priority) False j = (Some ENOMEM, K)
      \<and> fst (sched_stats_write E K (NEW_cmd n burst_time priority) True j) = None
      \<and> kernel_created K burst_time priority
          (snd (sched_stats_write E K (NEW_cmd n burst_time priority) True j)))
   \<and> simulator_created s priority burst_time (createProcess s n priority burst_time a t)"
proof (intro conjI impI)
  assume "burst_time \<le> 0 \<or> priority < 0 \<or> 10 < priority"
  then show "sched_stats_write E K (NEW_cmd n burst_time priority) ok j = (Some EINVAL, K)"
    by (rule cmd_new_rejects)
next
  assume "0 < burst_time \<and> 0 \<le> priority \<and> priority \<le> 10"
  then show "sched_stats_write E K (NEW_cmd n burst_time priority) False j = (Some ENOMEM, K)"
    by (simp add: cmd_new_nomem)
next
  assume "0 < burst_time \<and> 0 \<le> priority \<and> priority \<le> 10"
  then show "fst (sched_stats_write E K (NEW_cmd n burst_time priority) True j) = None"
    by (simp add: cmd_new_accepts)
next
  assume "0 < burst_time \<and> 0 \<le> priority \<and> priority \<le> 10"
  then show "kernel_created K burst_time priority
               (snd (sched_stats_write E K (NEW_cmd n burst_time priority) True j))"
    by (simp add: cmd_new_accepts)
next
  show "simulator_created s priority burst_time (createProcess s n priority burst_time a t)"
    by (rule createProcess_creates)
qed

theorem C5_witness:
  "(let E = \<lparr>HZ = 1000, msecs_to_jiffies = word_of_int, jiffies_to_msecs = (\<lambda>j. j)\<rparr>;
        K = custom_scheduler_init
    in sched_stats_write E K (NEW_cmd ''foo'' 0 5) True 0 = (Some EINVAL, K)
     \<and> sched_stats_write E K (NEW_cmd ''foo'' 500 11) True 0 = (Some EINVAL, K)
     \<and> sched_stats_write E K (NEW_cmd ''foo'' 500 5) False 0 = (Some ENOMEM, K)
     \<and> fst (sched_stats_write E K (NEW_cmd ''foo'' 500 5) True 0) = None
     \<and> kernel_created K 500 5 (snd (sched_stats_write E K (NEW_cmd ''foo'' 500 5) True 0))
     \<and> k_pid (all_processes (snd (sched_stats_write E K (NEW_cmd ''foo'' 500 5) True 0)) ! 0) = 2
     \<and> simulator_created Scheduler_init 5 500 (createProcess Scheduler_init ''foo'' 5 500 0 0))"
proof -
  have k: "k_pid (all_processes (snd (sched_stats_write
             \<lparr>HZ = 1000, msecs_to_jiffies = word_of_int, jiffies_to_msecs = (\<lambda>j. j)\<rparr>
             custom_scheduler_init (NEW_cmd ''foo'' 500 5) True 0)) ! 0) = 2"
    by (simp add: sched_stats_write_def cmd_new_def Let_def new_pcb_def custom_scheduler_init_def
        enqueue_process_def)
  show ?thesis
    using k
      C5_create [where burst_time = 0 and priority = 5 and K = custom_scheduler_init
        and E = "\<lparr>HZ = 1000, msecs_to_jiffies = word_of_int, jiffies_to_msecs = (\<lambda>j. j)\<rparr>"
        and n = "''foo''" and ok = True and j = 0 and s = Scheduler_init and a = 0 and t = 0]
      C5_create [where burst_time = 500 and priority = 11 and K = custom_scheduler_init
        and E = "\<lparr>HZ = 1000, msecs_to_jiffies = word_of_int, jiffies_to_msecs = (\<lambda>j. j)\<rparr>"
        and n = "''foo''" and ok = True and j = 0 and s = Scheduler_init and a = 0 and t = 0]
      C5_create [where burst_time = 500 and priority = 5 and K = custom_scheduler_init
        and E = "\<lparr>HZ = 1000, msecs_to_jiffies = word_of_int, jiffies_to_msecs = (\<lambda>j. j)\<rparr>"
        and n = "''foo''" and ok = True and j = 0 and s = Scheduler_init and a = 0 and t = 0]
    by (simp add: Let_def)
qed

subsection \<open>Dispatching a blocked process\<close>

text \<open>
  Claim C7: when the PCB in the running slot is WAITING at the post-execute decision,
  the engine clears the slot in that iteration and does not re-enqueue the PCB, so the
  next iteration can dispatch another one.
  The loop of the simulator only clears the slot for a TERMINATED process or when its
  own I/O simulation fires. After \<open>blockProcess\<close> on the running process A, the next
  iteration leaves A in the slot and B in the ready queue.
\<close>

theorem C7_simulator_waiting_process_keeps_slot:
  "(case run Scheduler_init
           [Start, Create ''A'' 3 1000 0 0, Create ''B'' 5 1000 0 0, Iteration 0 100,
            Block 1 150, Iteration 0 200] of
      Inl e \<Rightarrow> False
    | Inr s' \<Rightarrow>
        state (allProcesses s' ! 0) = WAITING
      \<and> currentProcess s' = Some 0
      \<and> readyQueue s' = [1]
      \<and> state (allProcesses s' ! 1) = READY
      \<and> remainingTime (allProcesses s' ! 1) = 1000)"
  by code_simp

subsection \<open>Wait time accrued by the control interface\<close>

text \<open>
  Claim C10: in the simulator every call of \<open>createProcess\<close>, \<open>terminateProcess\<close>,
  \<open>blockProcess\<close> and \<open>unblockProcess\<close> runs \<open>updateStats\<close>, which adds one time
  quantum to the wait time of every PCB that is READY after the call and refreshes the
  turnaround time of every PCB that is not TERMINATED. A PCB just created has waited one
  quantum when \<open>createProcess\<close> returns.
\<close>

theorem C10_control_api_accrues_wait:
  assumes "i < length (allProcesses s)"
  shows "accrued s t (snd (createProcess s n pr b a t)) i
       \<and> waitTime (allProcesses (snd (createProcess s n pr b a t)) ! length (allProcesses s))
           = timeQuantumMs s
       \<and> accrued s t (terminateProcess s pid0 t) i
       \<and> accrued s t (blockProcess s pid0 t) i
       \<and> accrued s t (unblockProcess s pid0 t) i"
  using assms
  by (simp add: accrued_create create_new_waitTime accrued_terminate accrued_block
      accrued_unblock)

theorem C10_witness:
  "(let s = snd (createProcess Scheduler_init ''A'' 5 300 0 0)
    in 0 < length (allProcesses s)
     \<and> accrued s 50 (snd (createProcess s ''B'' 5 300 50 50)) 0
     \<and> waitTime (allProcesses (snd (createProcess s ''B'' 5 300 50 50)) ! length (allProcesses s))
         = timeQuantumMs s
     \<and> accrued s 50 (terminateProcess s 1 50) 0
     \<and> accrued s 50 (blockProcess s 1 50) 0
     \<and> accrued s 50 (unblockProcess s 1 50) 0
     \<and> waitTime (allProcesses s ! 0) = 100
     \<and> waitTime (allProcesses (blockProcess s 1 50) ! 0) = 200)"
proof -
  define s where "s = snd (createProcess Scheduler_init ''A'' 5 300 0 0)"
  have h: "0 < length (allProcesses s)"
    unfolding s_def by code_simp
  have w: "waitTime (allProcesses s ! 0) = 100 \<and> waitTime (allProcesses (blockProcess s 1 50) ! 0) = 200"
    unfolding s_def by code_simp
  show ?thesis
    using h w C10_control_api_accrues_wait [OF h, of 50 "''B''" 5 300 50 1]
    unfolding s_def [symmetric] Let_def by blast
qed

subsection \<open>Blocking a process\<close>

lemma map_state_updateStats [simp]:
  "map state (allProcesses (updateStats s t)) = map state (allProcesses s)"
  by (simp add: allProcesses_updateStats)

lemma map_state_modify:
  "map state (allProcesses (modify s r (\<lambda>p. setState p st))) = (map state (allProcesses s))[r := st]"
proof (cases "r < length (allProcesses s)")
  case True
  then show ?thesis by (simp add: modify_def map_update)
next
  case False
  then show ?thesis by (simp add: modify_def list_update_beyond)
qed

lemma blockProcess_blocked: "simulator_blocked s pid0 (blockProcess s pid0 t)"
  by (simp add: simulator_blocked_def blockProcess_def Let_def map_state_modify
      split: option.split)

lemma cmd_wait_blocked:
  assumes "find_first (\<lambda>p. k_pid p = pid0) (all_processes K) = Some r"
  shows "kernel_blocked E K r wait_ms j (sched_stats_write E K (WAIT_cmd pid0 wait_ms) ok j)"
proof -
  from assms have r: "r < length (all_processes K)"
    by (auto dest: find_first_Some)
  show ?thesis
    using assms r
    by (simp add: kernel_blocked_def sched_stats_write_def cmd_wait_def Let_def kmodify_def)
qed

lemma cmd_wait_unknown:
  assumes "find_first (\<lambda>p. k_pid p = pid0) (all_processes K) = None"
  shows "sched_stats_write E K (WAIT_cmd pid0 wait_ms) ok j = (None, K)"
  using assms by (simp add: sched_stats_write_def cmd_wait_def)

text \<open>
  Claim C6, as stated: \<open>block(pid)\<close> on a READY PCB removes it from the ready structure
  and inserts it into the blocked set. \<open>Scheduler::blockProcess\<close> only acts on a PCB
  that is RUNNING: the READY process A stays READY and in the ready queue, and the
  blocked list stays empty.
\<close>

theorem C6_counterexample:
  "(case run Scheduler_init [Start, Create ''A'' 5 300 0 0, Block 1 50] of
      Inl e \<Rightarrow> False
    | Inr s' \<Rightarrow>
        pid (allProcesses s' ! 0) = 1
      \<and> state (allProcesses s' ! 0) = READY
      \<and> readyQueue s' = [0]
      \<and> blockedProcesses s' = [])"
  by code_simp

text \<open>
  Claim C6, amended: the \<open>WAIT\<close> command of the kernel module, for the first PCB with
  the given pid, marks a RUNNING PCB WAITING with a wake-up time and clears the running
  slot at once; removes a READY PCB from the ready queue and marks it WAITING with a
  wake-up time; and changes nothing for a PCB in any other state or for an unknown pid.
  \<open>blockProcess\<close> of the simulator marks the first RUNNING PCB with the given pid
  WAITING and changes the state of no other PCB; it never changes the ready queue, the
  blocked list or the running slot, so a READY PCB stays where it is.
\<close>

theorem C6_block:
  "(find_first (\<lambda>p. k_pid p = pid0) (all_processes K) = Some r \<longrightarrow>
      kernel_blocked E K r wait_ms j (sched_stats_write E K (WAIT_cmd pid0 wait_ms) ok j))
   \<and> (find_first (\<lambda>p. k_pid p = pid0) (all_processes K) = None \<longrightarrow>
      sched_stats_write E K (WAIT_cmd pid0 wait_ms) ok j = (None, K))
   \<and> simulator_blocked s pid1 (blockProcess s pid1 t)"
  by (simp add: cmd_wait_blocked cmd_wait_unknown blockProcess_blocked)

theorem C6_witness:
  "(let K = snd (sched_stats_write env_1000 custom_scheduler_init (NEW_cmd ''A'' 500 5) True 0);
        res = sched_stats_write env_1000 K (WAIT_cmd 2 100) True 7;
        s = snd (createProcess Scheduler_init ''A'' 5 300 0 0)
    in find_first (\<lambda>p. k_pid p = 2) (all_processes K) = Some 0
     \<and> kernel_blocked env_1000 K 0 100 7 res
     \<and> k_state (all_processes K ! 0) = PROC_READY
     \<and> k_state (all_processes (snd res) ! 0) = PROC_WAITING
     \<and> wakeup_time_jiffies (all_processes (snd res) ! 0) = 107
     \<and> ready_q K = [0] \<and> ready_q (snd res) = []
     \<and> find_first (\<lambda>p. k_pid p = 99) (all_processes K) = None
     \<and> sched_stats_write env_1000 K (WAIT_cmd 99 100) True 7 = (None, K)
     \<and> simulator_blocked s 1 (blockProcess s 1 50))"
proof -
  define K where "K = snd (sched_stats_write env_1000 custom_scheduler_init (NEW_cmd ''A'' 500 5) True 0)"
  define res where "res = sched_stats_write env_1000 K (WAIT_cmd 2 100) True 7"
  define s where "s = snd (createProcess Scheduler_init ''A'' 5 300 0 0)"
  have h1: "find_first (\<lambda>p. k_pid p = 2) (all_processes K) = Some 0"
    unfolding K_def by code_simp
  have h2: "find_first (\<lambda>p. k_pid p = 99) (all_processes K) = None"
    unfolding K_def by code_simp
  have v: "k_state (all_processes K ! 0) = PROC_READY
     \<and> k_state (all_processes (snd res) ! 0) = PROC_WAITING
     \<and> wakeup_time_jiffies (all_processes (snd res) ! 0) = 107
     \<and> ready_q K = [0] \<and> ready_q (snd res) = []"
    unfolding res_def K_def by code_simp
  have a: "kernel_blocked env_1000 K 0 100 7 res"
    using h1 C6_block [where K = K and ?pid0.0 = 2 and r = 0 and E = env_1000
        and wait_ms = 100 and j = 7 and ok = True]
    unfolding res_def by blast
  have b: "sched_stats_write env_1000 K (WAIT_cmd 99 100) True 7 = (None, K)"
    using h2 C6_block [where K = K and ?pid0.0 = 99 and E = env_1000
        and wait_ms = 100 and j = 7 and ok = True]
    by blast
  have c: "simulator_blocked s 1 (blockProcess s 1 50)"
    using C6_block [where s = s and ?pid1.0 = 1 and t = 50] by blast
  have "find_first (\<lambda>p. k_pid p = 2) (all_processes K) = Some 0
     \<and> kernel_blocked env_1000 K 0 100 7 res
     \<and> k_state (all_processes K ! 0) = PROC_READY
     \<and> k_state (all_processes (snd res) ! 0) = PROC_WAITING
     \<and> wakeup_time_jiffies (all_processes (snd res) ! 0) = 107
     \<and> ready_q K = [0] \<and> ready_q (snd res) = []
     \<and> find_first (\<lambda>p. k_pid p = 99) (all_processes K) = None
     \<and> sched_stats_write env_1000 K (WAIT_cmd 99 100) True 7 = (None, K)
     \<and> simulator_blocked s 1 (blockProcess s 1 50)"
    using h1 h2 v a b c by blast
  then show ?thesis
    unfolding res_def K_def s_def Let_def .
qed

subsection \<open>The context-switch counter\<close>

lemma wake_one_stats [simp]: "k_stats (wake_one j K r) = k_stats K"
  by (simp add: wake_one_def Let_def)

lemma check_waiting_stats [simp]: "k_stats (check_waiting_processes K j) = k_stats K"
proof -
  have "k_stats (foldl (wake_one j) K rs) = k_stats K" for rs
    by (induction rs arbitrary: K) simp_all
  then show ?thesis by (simp add: check_waiting_processes_def)
qed

lemma apply_aging_stats [simp]: "k_stats (apply_aging E K j) = k_stats K"
proof -
  have "k_stats (foldl (\<lambda>K' r. kmodify K' r (apply_aging_pcb E a j)) K rs) = k_stats K" for rs a
    by (induction rs arbitrary: K) simp_all
  then show ?thesis by (simp add: apply_aging_def)
qed

lemma update_statistics_cs [simp]:
  "context_switches (k_stats (update_statistics K)) = context_switches (k_stats K)"
  by (simp add: update_statistics_def Let_def)

lemma post_execute_cs [simp]:
  "context_switches (k_stats (post_execute E K proc j)) = context_switches (k_stats K)"
  by (simp add: post_execute_def Let_def)




lemma thread_end_cs [simp]:
  "context_switches (k_stats (thread_end E K j)) = context_switches (k_stats K)"
  by (simp add: thread_end_def Let_def split: option.split)

lemma sched_stats_write_stats [simp]:
  "k_stats (snd (sched_stats_write E K cmd ok j)) = k_stats K"
  by (cases cmd)
    (simp_all add: sched_stats_write_def cmd_new_def cmd_wait_def Let_def split: option.split)




lemma selectNextProcess_stats [simp]: "stats (selectNextProcess s) = stats s"
  by (simp add: selectNextProcess_def split: prod.split option.split)

lemma run_current_stats [simp]: "stats (run_current s rnd) = stats s"
  by (simp add: run_current_def Let_def split: option.split)

lemma unblock_finished_stats [simp]: "stats (unblock_finished s) = stats s"
  by (simp add: unblock_finished_def split: prod.split)








subsection \<open>Remaining time: the simulator\<close>





lemma remaining_ok_setState [simp]: "remaining_ok (setState p st) = remaining_ok p"
  by (simp add: remaining_ok_def)

lemma remaining_ok_updateStats_proc [simp]:
  "remaining_ok (updateStats_proc q t p) = remaining_ok p"
  by (simp add: remaining_ok_def)



lemma list_all_updateStats:
  "list_all remaining_ok (allProcesses (updateStats s t)) = list_all remaining_ok (allProcesses s)"
  by (simp add: allProcesses_updateStats list_all_length)

lemma sim_inv_updateStats [simp]: "sim_inv (updateStats s t) = sim_inv s"
  by (simp add: sim_inv_def list_all_updateStats)


lemma sim_inv_readyQueue_update [simp]: "sim_inv (s\<lparr>readyQueue := q\<rparr>) = sim_inv s"
  by (simp add: sim_inv_def)

lemma sim_inv_currentProcess_update [simp]: "sim_inv (s\<lparr>currentProcess := c\<rparr>) = sim_inv s"
  by (simp add: sim_inv_def)

lemma sim_inv_counter_update [simp]: "sim_inv (s\<lparr>ioSimulationCounter := c\<rparr>) = sim_inv s"
  by (simp add: sim_inv_def)

lemma sim_inv_blocked_update [simp]: "sim_inv (s\<lparr>blockedProcesses := b\<rparr>) = sim_inv s"
  by (simp add: sim_inv_def)
















subsection \<open>Remaining time: the kernel module\<close>




lemma length_wake_one [simp]: "length (all_processes (wake_one j K r)) = length (all_processes K)"
  by (simp add: wake_one_def Let_def)



lemma kremaining_ok_apply_aging_pcb [simp]:
  "kremaining_ok (apply_aging_pcb E a j p) = kremaining_ok p"
  by (simp add: apply_aging_pcb_def kremaining_ok_def Let_def)




lemma kremaining_ok_charge_wait [simp]: "kremaining_ok (charge_wait t p) = kremaining_ok p"
  by (simp add: charge_wait_def kremaining_ok_def)


lemma update_statistics_frame [simp]:
  "all_processes (update_statistics K) = all_processes K"
  "time_quantum_ms (update_statistics K) = time_quantum_ms K"
  "ready_q (update_statistics K) = ready_q K"
  "current_proc (update_statistics K) = current_proc K"
  "thread_proc (update_statistics K) = thread_proc K"
  "sleeping (update_statistics K) = sleeping K"
  "exec_time (update_statistics K) = exec_time K"
  by (simp_all add: update_statistics_def Let_def)

lemma kinv0_update_statistics [simp]: "kinv0 (update_statistics K) = kinv0 K"
  by (simp add: kinv0_def refs_ok_def)

















end
